theory Spec2Isabelle
  imports Complex_Main "HOL-Library.AList"
begin

section \<open>Python values, exceptions and dictionaries\<close>

text \<open>
  The module \<^verbatim>\<open>ldm/dream/args.py\<close> defines one class, \<^verbatim>\<open>Args\<close>, over two
  \<^verbatim>\<open>argparse\<close> parsers: it tokenizes a command line, hands the switches to a parser,
  merges the two parsed records behind one attribute surface, and prints a configuration
  back as a prompt string. The theory follows the module method by method. What the module
  takes from the standard library (\<^verbatim>\<open>shlex.split\<close>, \<^verbatim>\<open>ArgumentParser.parse_args\<close>,
  attribute lookup on objects) is modelled as far as the module uses it;
  \<^verbatim>\<open>json.dumps\<close> and with it \<^verbatim>\<open>json\<close> and \<^verbatim>\<open>format_metadata\<close>, which only
  serialize the result of \<^verbatim>\<open>to_dict\<close>, are left out.

  Python values are dynamically typed, so the model has one type of values. A float is the
  number it denotes, the zero with a minus sign, or one of the three non-finite floats. Strings are lists of 8-bit characters. \<^verbatim>\<open>PList\<close> stands for a list or a
  tuple: the code only iterates over them.
\<close>

datatype pyfloat = Fin rat | NegZero | PosInf | NegInf | NaN

datatype pyval =
    PNone
  | PBool bool
  | PInt int
  | PFloat pyfloat
  | PStr string
  | PList "pyval list"

text \<open>The exceptions that leave the methods of the class. \<^verbatim>\<open>SystemExit\<close> carries
  the exit status that \<^verbatim>\<open>argparse\<close> passes to \<^verbatim>\<open>sys.exit\<close>.\<close>

datatype exc =
    ValueError
  | NameError string
  | IndexError
  | AttributeError
  | KeyError string
  | TypeError
  | SystemExit int

text \<open>A \<^verbatim>\<open>Namespace\<close> is its \<^verbatim>\<open>__dict__\<close>: a dictionary from attribute names to
  values, kept in insertion order as Python keeps it.\<close>

type_synonym namespace = "(string \<times> pyval) list"

text \<open>\<^verbatim>\<open>d[k] = v\<close>: an existing key keeps its place, a new key goes to the end.\<close>

definition dict_set :: "string \<Rightarrow> pyval \<Rightarrow> namespace \<Rightarrow> namespace" where
  "dict_set k v d = AList.update k v d"

text \<open>\<^verbatim>\<open>d.update(e)\<close>: the items of \<^verbatim>\<open>e\<close> are stored into \<^verbatim>\<open>d\<close> one by one, in
  the order of \<^verbatim>\<open>e\<close>.\<close>

definition dict_update :: "namespace \<Rightarrow> namespace \<Rightarrow> namespace" where
  "dict_update d e = fold (\<lambda>(k, v). dict_set k v) e d"

text \<open>\<^verbatim>\<open>d[k]\<close> raises \<^verbatim>\<open>KeyError\<close> on a missing key.\<close>

definition dict_get :: "namespace \<Rightarrow> string \<Rightarrow> exc + pyval" where
  "dict_get d k = (case map_of d k of None \<Rightarrow> Inl (KeyError k) | Some v \<Rightarrow> Inr v)"

text \<open>\<^verbatim>\<open>hasattr\<close> on a \<^verbatim>\<open>Namespace\<close>: its fields, and the three
  methods that \<^verbatim>\<open>argparse.Namespace\<close> has beyond those of \<^verbatim>\<open>object\<close>. A
  \<^verbatim>\<open>Namespace\<close> defines neither \<^verbatim>\<open>__bool__\<close> nor \<^verbatim>\<open>__len__\<close>, so it is truthy.\<close>

definition namespace_methods :: "string list" where
  "namespace_methods = [''__contains__'', ''_get_args'', ''_get_kwargs'']"

definition hasattr :: "namespace \<Rightarrow> string \<Rightarrow> bool" where
  "hasattr ns name = (map_of ns name \<noteq> None \<or> name \<in> set namespace_methods)"

definition namespace_truthy :: "namespace \<Rightarrow> bool" where
  "namespace_truthy ns = True"

text \<open>\<^verbatim>\<open>s.startswith(p)\<close>.\<close>

definition startswith :: "string \<Rightarrow> string \<Rightarrow> bool" where
  "startswith s p = (take (length p) s = p)"

section \<open>The tokenizer: \<^verbatim>\<open>shlex.split\<close>\<close>

text \<open>
  \<^verbatim>\<open>shlex.split(s)\<close> runs the POSIX-mode lexer with \<^verbatim>\<open>whitespace_split\<close> set and
  no comment characters. The lexer is a state machine over the characters of the line;
  its states are \<^verbatim>\<open>' '\<close> (between tokens), \<^verbatim>\<open>'a'\<close> (inside a word), an open quote
  character, and the escape character. \<^verbatim>\<open>escapedstate\<close> is the state to return to
  after an escaped character, \<^verbatim>\<open>quoted\<close> records that the current token had a quoted
  part (so that an empty quoted token is still a token).
\<close>

datatype lexstate = Blank | Word | Quote char | Escape

definition whitespace :: "char list" where
  "whitespace = [CHR '' '', CHR 0x09, CHR 0x0D, CHR 0x0A]"

definition quotes :: "char list" where
  "quotes = [CHR 0x27, CHR 0x22]"

definition escape :: char where
  "escape = CHR 0x5C"

definition escapedquotes :: "char list" where
  "escapedquotes = [CHR 0x22]"

definition emit :: "string \<Rightarrow> exc + string list \<Rightarrow> exc + string list" where
  "emit tok r = (case r of Inl e \<Rightarrow> Inl e | Inr ts \<Rightarrow> Inr (tok # ts))"

fun lexer :: "lexstate \<Rightarrow> lexstate \<Rightarrow> string \<Rightarrow> bool \<Rightarrow> string \<Rightarrow> exc + string list" where
  "lexer Blank esc tok quoted [] = Inr []"
| "lexer Blank esc tok quoted (c # cs) =
     (if c \<in> set whitespace then lexer Blank esc tok quoted cs
      else if c = escape then lexer Escape Word tok quoted cs
      else if c \<in> set quotes then lexer (Quote c) esc tok quoted cs
      else lexer Word esc [c] quoted cs)"
| "lexer (Quote q) esc tok quoted [] = Inl ValueError"
| "lexer (Quote q) esc tok quoted (c # cs) =
     (if c = q then lexer Word esc tok True cs
      else if c = escape \<and> q \<in> set escapedquotes then lexer Escape (Quote q) tok True cs
      else lexer (Quote q) esc (tok @ [c]) True cs)"
| "lexer Escape esc tok quoted [] = Inl ValueError"
| "lexer Escape esc tok quoted (c # cs) =
     (let kept = (case esc of
                    Quote q \<Rightarrow> if c \<noteq> escape \<and> c \<noteq> q then tok @ [escape] else tok
                  | _ \<Rightarrow> tok)
      in lexer esc esc (kept @ [c]) quoted cs)"
| "lexer Word esc tok quoted [] = (if tok = [] \<and> \<not> quoted then Inr [] else Inr [tok])"
| "lexer Word esc tok quoted (c # cs) =
     (if c \<in> set whitespace then
        (if tok \<noteq> [] \<or> quoted then emit tok (lexer Blank Blank [] False cs)
         else lexer Blank esc tok quoted cs)
      else if c \<in> set quotes then lexer (Quote c) esc tok quoted cs
      else if c = escape then lexer Escape Word tok quoted cs
      else lexer Word esc (tok @ [c]) quoted cs)"

definition shlex_split :: "string \<Rightarrow> exc + string list" where
  "shlex_split s = lexer Blank Blank [] False s"

section \<open>The argument parsers: \<^verbatim>\<open>argparse\<close>\<close>

text \<open>
  Both parsers are \<^verbatim>\<open>argparse.ArgumentParser\<close> objects filled by \<^verbatim>\<open>add_argument\<close>.
  This section models \<^verbatim>\<open>parse_args\<close> of the library (CPython 3.11) for the kinds of
  arguments the module declares: positionals that take one string, options that store one
  value or one or more values, \<^verbatim>\<open>store_true\<close> flags and the built-in help option. An
  error is reported by the library on the error stream and ends in \<^verbatim>\<open>sys.exit(2)\<close>;
  the help option ends in \<^verbatim>\<open>sys.exit(0)\<close>. The conversion \<^verbatim>\<open>float\<close> is a parameter
  (\<open>fconv\<close>) of the model.
\<close>

subsection \<open>Declared arguments\<close>

text \<open>An action as \<^verbatim>\<open>add_argument\<close> records it. \<^verbatim>\<open>type=None\<close> and \<^verbatim>\<open>type=str\<close>
  both keep the argument string (\<open>TStr\<close>). \<open>Zero\<close> is the arity of the actions that
  take no argument, \<open>One\<close> is \<^verbatim>\<open>nargs=None\<close>, \<open>OneOrMore\<close> is \<^verbatim>\<open>nargs='+'\<close>.\<close>

datatype argtype = TStr | TInt | TFloat
datatype action = Store | StoreTrue | Help
datatype arity = One | OneOrMore | Zero

record argspec =
  option_strings :: "string list"
  dest :: string
  action :: action
  nargs :: arity
  argtype :: argtype
  dflt :: pyval
  choices :: "pyval list option"
  required :: bool

text \<open>Without \<^verbatim>\<open>dest=\<close>, the destination of an option comes from its first long
  option string, or from its first option string when none is long: the leading dashes
  are stripped and the other dashes become underscores.\<close>

definition lstrip_dash :: "string \<Rightarrow> string" where
  "lstrip_dash s = dropWhile (\<lambda>c. c = CHR ''-'') s"

definition is_long :: "string \<Rightarrow> bool" where
  "is_long s = (case s of _ # c # _ \<Rightarrow> c = CHR ''-'' | _ \<Rightarrow> False)"

definition infer_dest :: "string list \<Rightarrow> string" where
  "infer_dest flags =
     (let chosen = (case filter is_long flags of
                      l # _ \<Rightarrow> l
                    | [] \<Rightarrow> (case flags of f # _ \<Rightarrow> f | [] \<Rightarrow> []))
      in map (\<lambda>c. if c = CHR ''-'' then CHR ''_'' else c) (lstrip_dash chosen))"

text \<open>\<^verbatim>\<open>add_argument\<close> for an option that stores a value, for a \<^verbatim>\<open>store_true\<close>
  flag and for a positional; \<^verbatim>\<open>dest=\<close>, \<^verbatim>\<open>nargs=\<close> and \<^verbatim>\<open>choices=\<close> are set
  by a record update where the source gives them. The help option is the one every parser
  has; it stores nothing.\<close>

definition add_option :: "string list \<Rightarrow> argtype \<Rightarrow> pyval \<Rightarrow> argspec" where
  "add_option flags ty d =
     \<lparr>option_strings = flags, dest = infer_dest flags, action = Store, nargs = One,
      argtype = ty, dflt = d, choices = None, required = False\<rparr>"

definition add_flag :: "string list \<Rightarrow> argspec" where
  "add_flag flags =
     \<lparr>option_strings = flags, dest = infer_dest flags, action = StoreTrue, nargs = Zero,
      argtype = TStr, dflt = PBool False, choices = None, required = False\<rparr>"

definition add_positional :: "string \<Rightarrow> argspec" where
  "add_positional name =
     \<lparr>option_strings = [], dest = name, action = Store, nargs = One,
      argtype = TStr, dflt = PNone, choices = None, required = True\<rparr>"

definition help_action :: argspec where
  "help_action =
     \<lparr>option_strings = [''-h'', ''--help''], dest = ''help'', action = Help, nargs = Zero,
      argtype = TStr, dflt = PNone, choices = None, required = False\<rparr>"


subsection \<open>Converting argument strings\<close>

text \<open>\<^verbatim>\<open>int(s)\<close> on a string: blanks around the numeral are dropped, a sign may come
  first, and single underscores may separate digits. The blanks are those of the conversion
  (tab to carriage return, the space, and among the characters above 127 the next-line
  character and the no-break space), not those of \<^verbatim>\<open>str.strip\<close>. A numeral of more
  than \<open>max_str_digits\<close> digits is refused; the bound is the interpreter's default.\<close>

definition is_digit :: "char \<Rightarrow> bool" where
  "is_digit c = (c \<in> set ''0123456789'')"

definition digit_val :: "char \<Rightarrow> int" where
  "digit_val c = of_char c - 48"

definition is_space :: "char \<Rightarrow> bool" where
  "is_space c =
     (c \<in> set [CHR 0x09, CHR 0x0A, CHR 0x0B, CHR 0x0C, CHR 0x0D, CHR 0x20, CHR 0x85, CHR 0xA0])"

definition strip :: "string \<Rightarrow> string" where
  "strip s = rev (dropWhile is_space (rev (dropWhile is_space s)))"

fun digits :: "bool \<Rightarrow> int \<Rightarrow> string \<Rightarrow> int option" where
  "digits after_digit acc [] = (if after_digit then Some acc else None)"
| "digits after_digit acc (c # cs) =
     (if is_digit c then digits True (acc * 10 + digit_val c) cs
      else if c = CHR ''_'' \<and> after_digit then digits False acc cs
      else None)"

definition max_str_digits :: nat where
  "max_str_digits = 4300"

definition int_of_string :: "string \<Rightarrow> int option" where
  "int_of_string s =
     (if max_str_digits < length (filter is_digit s) then None
      else case strip s of
        [] \<Rightarrow> None
      | c # cs \<Rightarrow>
          if c = CHR ''-'' then map_option uminus (digits False 0 cs)
          else if c = CHR ''+'' then digits False 0 cs
          else digits False 0 (c # cs))"

text \<open>\<^verbatim>\<open>_get_value\<close> applies the conversion of the action's type, and
  \<^verbatim>\<open>_check_value\<close> tests the choices; a failure of either is a usage error.
  \<^verbatim>\<open>_get_values\<close> drops the first \<^verbatim>\<open>--\<close> from the strings of a positional and
  gives one value for \<^verbatim>\<open>nargs=None\<close>, a list otherwise.\<close>

definition get_value :: "(string \<Rightarrow> pyfloat option) \<Rightarrow> argspec \<Rightarrow> string \<Rightarrow> exc + pyval" where
  "get_value fconv a s =
     (case (case argtype a of
              TStr \<Rightarrow> Some (PStr s)
            | TInt \<Rightarrow> map_option PInt (int_of_string s)
            | TFloat \<Rightarrow> map_option PFloat (fconv s)) of
        None \<Rightarrow> Inl (SystemExit 2)
      | Some v \<Rightarrow> Inr v)"

definition check_value :: "argspec \<Rightarrow> pyval \<Rightarrow> exc + pyval" where
  "check_value a v =
     (case choices a of
        None \<Rightarrow> Inr v
      | Some cs \<Rightarrow> if v \<in> set cs then Inr v else Inl (SystemExit 2))"

fun get_checked :: "(string \<Rightarrow> pyfloat option) \<Rightarrow> argspec \<Rightarrow> string list \<Rightarrow> exc + pyval list" where
  "get_checked fconv a [] = Inr []"
| "get_checked fconv a (s # ss) =
     (case get_value fconv a s of
        Inl e \<Rightarrow> Inl e
      | Inr v \<Rightarrow>
          (case check_value a v of
             Inl e \<Rightarrow> Inl e
           | Inr v' \<Rightarrow>
               (case get_checked fconv a ss of Inl e \<Rightarrow> Inl e | Inr vs \<Rightarrow> Inr (v' # vs))))"

definition get_values :: "(string \<Rightarrow> pyfloat option) \<Rightarrow> argspec \<Rightarrow> string list \<Rightarrow> exc + pyval" where
  "get_values fconv a arg_strings =
     (let strs = (if option_strings a = [] then remove1 ''--'' arg_strings else arg_strings)
      in case get_checked fconv a strs of
           Inl e \<Rightarrow> Inl e
         | Inr vs \<Rightarrow>
             (case (nargs a, vs) of
                (One, [v]) \<Rightarrow> Inr v
              | _ \<Rightarrow> Inr (PList vs)))"

subsection \<open>Telling options from arguments\<close>

text \<open>Every argument string is marked as an argument (\<^verbatim>\<open>A\<close>), as the separator
  \<^verbatim>\<open>--\<close>, or as an option (\<^verbatim>\<open>O\<close>) together with what \<^verbatim>\<open>_parse_optional\<close>
  found: the action (none for an unknown option), the option string, the separator and
  the explicit argument attached to the option.\<close>

datatype mark = MArg | MDash | MOpt "argspec option" string "string option" "string option"

definition is_opt :: "mark \<times> string \<Rightarrow> bool" where
  "is_opt m = (case fst m of MOpt _ _ _ _ \<Rightarrow> True | _ \<Rightarrow> False)"

definition is_dash :: "mark \<times> string \<Rightarrow> bool" where
  "is_dash m = (fst m = MDash)"

definition is_arg :: "mark \<times> string \<Rightarrow> bool" where
  "is_arg m = (fst m = MArg)"

text \<open>The dictionary \<^verbatim>\<open>_option_string_actions\<close>, in the order of registration.\<close>

type_synonym option_map = "(string \<times> argspec) list"

definition option_string_actions :: "argspec list \<Rightarrow> option_map" where
  "option_string_actions actions = concat (map (\<lambda>a. map (\<lambda>s. (s, a)) (option_strings a)) actions)"

text \<open>\<^verbatim>\<open>s.partition('=')\<close>: the part before the first \<^verbatim>\<open>=\<close>, whether there is one,
  and the part after it.\<close>

definition partition_eq :: "string \<Rightarrow> string \<times> bool \<times> string" where
  "partition_eq s =
     (if CHR ''='' \<in> set s
      then (takeWhile (\<lambda>c. c \<noteq> CHR ''='') s, True, drop 1 (dropWhile (\<lambda>c. c \<noteq> CHR ''='') s))
      else (s, False, []))"

text \<open>\<^verbatim>\<open>_get_option_tuples\<close>: the registered option strings that a string may
  abbreviate. A string with two dashes abbreviates the options it is a prefix of (up to
  its \<^verbatim>\<open>=\<close>); a string with one dash is a one-letter option with its argument
  attached, or a prefix of an option string.\<close>

definition get_option_tuples :: "option_map \<Rightarrow> string \<Rightarrow> mark list" where
  "get_option_tuples osa s =
     (if is_long s then
        (case partition_eq s of (option_prefix, has_sep, explicit_arg) \<Rightarrow>
           concat (map (\<lambda>(ostr, a).
             if startswith ostr option_prefix
             then [MOpt (Some a) ostr (if has_sep then Some ''='' else None)
                                   (if has_sep then Some explicit_arg else None)]
             else []) osa))
      else
        concat (map (\<lambda>(ostr, a).
          if ostr = take 2 s then [MOpt (Some a) ostr (Some []) (Some (drop 2 s))]
          else if startswith ostr s then [MOpt (Some a) ostr None None]
          else []) osa))"

text \<open>\<^verbatim>\<open>_negative_number_matcher\<close>: a dash and digits, or a dash, optional digits, a
  dot and digits; the end of the pattern also matches before a final newline. Neither
  parser has an option that looks like a negative number, so such a string is an
  argument.\<close>

definition strip_final_newline :: "string \<Rightarrow> string" where
  "strip_final_newline s = (if s \<noteq> [] \<and> last s = CHR 0x0A then butlast s else s)"

definition negative_number :: "string \<Rightarrow> bool" where
  "negative_number s =
     (case strip_final_newline s of
        [] \<Rightarrow> False
      | c # r \<Rightarrow>
          c = CHR ''-'' \<and>
          ((r \<noteq> [] \<and> list_all is_digit r) \<or>
           (case dropWhile is_digit r of
              [] \<Rightarrow> False
            | d # f \<Rightarrow> d = CHR ''.'' \<and> f \<noteq> [] \<and> list_all is_digit f)))"

text \<open>\<^verbatim>\<open>_parse_optional\<close>. More than one candidate is the usage error
  \<^verbatim>\<open>ambiguous option\<close>.\<close>

definition parse_optional :: "option_map \<Rightarrow> string \<Rightarrow> exc + mark" where
  "parse_optional osa s =
     (case s of
        [] \<Rightarrow> Inr MArg
      | c # r \<Rightarrow>
          if c \<noteq> CHR ''-'' then Inr MArg
          else case map_of osa s of
            Some a \<Rightarrow> Inr (MOpt (Some a) s None None)
          | None \<Rightarrow>
              if r = [] then Inr MArg
              else case partition_eq s of (option_string, has_sep, explicit_arg) \<Rightarrow>
                (case (if has_sep then map_of osa option_string else None) of
                   Some a \<Rightarrow> Inr (MOpt (Some a) option_string (Some ''='') (Some explicit_arg))
                 | None \<Rightarrow>
                     (case get_option_tuples osa s of
                        [] \<Rightarrow>
                          if negative_number s then Inr MArg
                          else if CHR '' '' \<in> set s then Inr MArg
                          else Inr (MOpt None s None None)
                      | [t] \<Rightarrow> Inr t
                      | _ \<Rightarrow> Inl (SystemExit 2))))"

text \<open>The marks of the whole argument list: everything after the first \<^verbatim>\<open>--\<close> is an
  argument.\<close>

fun classify :: "option_map \<Rightarrow> string list \<Rightarrow> exc + (mark \<times> string) list" where
  "classify osa [] = Inr []"
| "classify osa (s # ss) =
     (if s = ''--'' then Inr ((MDash, s) # map (\<lambda>t. (MArg, t)) ss)
      else case parse_optional osa s of
             Inl e \<Rightarrow> Inl e
           | Inr m \<Rightarrow>
               (case classify osa ss of Inl e \<Rightarrow> Inl e | Inr ms \<Rightarrow> Inr ((m, s) # ms)))"


subsection \<open>Consuming options and positionals\<close>

text \<open>The state of a parse: the namespace, the actions seen so far, and the argument
  strings that no action took (\<^verbatim>\<open>extras\<close>).\<close>

type_synonym pstate = "namespace \<times> argspec list \<times> string list"

text \<open>\<^verbatim>\<open>take_action\<close>: the strings are converted, then the action runs: a store
  action sets its destination, \<^verbatim>\<open>store_true\<close> sets it to \<^verbatim>\<open>True\<close>, and help prints
  the help text and exits with status 0.\<close>

definition take_action ::
  "(string \<Rightarrow> pyfloat option) \<Rightarrow> argspec \<Rightarrow> string list \<Rightarrow> pstate \<Rightarrow> exc + pstate" where
  "take_action fconv a arg_strings st =
     (case st of (ns, seen, extras) \<Rightarrow>
        (case get_values fconv a arg_strings of
           Inl e \<Rightarrow> Inl e
         | Inr v \<Rightarrow>
             (case action a of
                Store \<Rightarrow> Inr (dict_set (dest a) v ns, a # seen, extras)
              | StoreTrue \<Rightarrow> Inr (dict_set (dest a) (PBool True) ns, a # seen, extras)
              | Help \<Rightarrow> Inl (SystemExit 0))))"

fun take_actions ::
  "(string \<Rightarrow> pyfloat option) \<Rightarrow> (argspec \<times> string list) list \<Rightarrow> pstate \<Rightarrow> exc + pstate" where
  "take_actions fconv [] st = Inr st"
| "take_actions fconv ((a, strs) # ts) st =
     (case take_action fconv a strs st of
        Inl e \<Rightarrow> Inl e
      | Inr st' \<Rightarrow> take_actions fconv ts st')"

text \<open>\<^verbatim>\<open>_match_argument\<close> for an option: how many of the following strings it takes.\<close>

definition match_argument :: "argspec \<Rightarrow> (mark \<times> string) list \<Rightarrow> exc + nat" where
  "match_argument a following =
     (case nargs a of
        Zero \<Rightarrow> Inr 0
      | One \<Rightarrow> (case following of m # _ \<Rightarrow> if is_arg m then Inr 1 else Inl (SystemExit 2)
                                 | [] \<Rightarrow> Inl (SystemExit 2))
      | OneOrMore \<Rightarrow>
          (let n = length (takeWhile is_arg following)
           in if 0 < n then Inr n else Inl (SystemExit 2)))"

text \<open>The result of \<^verbatim>\<open>consume_optional\<close> before the actions are taken: the actions
  with their argument strings, the strings added to \<^verbatim>\<open>extras\<close>, and how many of the
  following strings were used.\<close>

type_synonym consumed = "(argspec \<times> string list) list \<times> string list \<times> nat"

text \<open>The loop of \<^verbatim>\<open>consume_optional\<close> for an option with an explicit argument. An
  option that takes an argument takes the explicit one. A one-letter flag that takes none
  is followed by further one-letter options in the same string (\<^verbatim>\<open>-gi\<close> is \<^verbatim>\<open>-g -i\<close>),
  the last of which may take the rest of the string or the following strings.\<close>

fun explicit_loop ::
  "option_map \<Rightarrow> (mark \<times> string) list \<Rightarrow> argspec \<Rightarrow> string \<Rightarrow> bool \<Rightarrow> string \<Rightarrow>
     (argspec \<times> string list) list \<Rightarrow> exc + consumed" where
  "explicit_loop osa following a option_string sep explicit_arg tuples =
     (if nargs a = Zero \<and> \<not> is_long option_string \<and> explicit_arg \<noteq> [] then
        (case explicit_arg of
           [] \<Rightarrow> Inl (SystemExit 2)
         | c # rest \<Rightarrow>
             if sep \<or> c = CHR ''-'' then Inl (SystemExit 2)
             else
               (case map_of osa [CHR ''-'', c] of
                  None \<Rightarrow> Inr (tuples @ [(a, [])], [CHR ''-'' # explicit_arg], 0)
                | Some a' \<Rightarrow>
                    (case rest of
                       [] \<Rightarrow>
                         (case match_argument a' following of
                            Inl e \<Rightarrow> Inl e
                          | Inr n \<Rightarrow>
                              Inr (tuples @ [(a, []), (a', map snd (take n following))], [], n))
                     | d # rest' \<Rightarrow>
                         if d = CHR ''=''
                         then explicit_loop osa following a' [CHR ''-'', c] True rest'
                                (tuples @ [(a, [])])
                         else explicit_loop osa following a' [CHR ''-'', c] False rest
                                (tuples @ [(a, [])]))))
      else if nargs a \<noteq> Zero then Inr (tuples @ [(a, [explicit_arg])], [], 0)
      else Inl (SystemExit 2))"

text \<open>\<^verbatim>\<open>consume_optional\<close>: an unknown option goes to \<^verbatim>\<open>extras\<close>; an option
  without explicit argument takes what \<^verbatim>\<open>_match_argument\<close> gives it.\<close>

definition consume_optional ::
  "option_map \<Rightarrow> mark \<times> string \<Rightarrow> (mark \<times> string) list \<Rightarrow> exc + consumed" where
  "consume_optional osa item following =
     (case fst item of
        MOpt None _ _ _ \<Rightarrow> Inr ([], [snd item], 0)
      | MOpt (Some a) option_string sep (Some explicit_arg) \<Rightarrow>
          explicit_loop osa following a option_string (sep = Some ''='') explicit_arg []
      | MOpt (Some a) option_string sep None \<Rightarrow>
          (case match_argument a following of
             Inl e \<Rightarrow> Inl e
           | Inr n \<Rightarrow> Inr ([(a, map snd (take n following))], [], n))
      | _ \<Rightarrow> Inr ([], [], 0))"

text \<open>\<^verbatim>\<open>_match_arguments_partial\<close> for positionals that take one argument each: the
  pattern of one positional is \<^verbatim>\<open>-*A-*\<close>. The result is the number of strings taken by
  each positional matched, for the longest list of positionals that matches.\<close>

definition match_one :: "(mark \<times> string) list \<Rightarrow> nat option" where
  "match_one items =
     (let d1 = length (takeWhile is_dash items)
      in case drop d1 items of
           m # r \<Rightarrow> if is_arg m then Some (d1 + 1 + length (takeWhile is_dash r)) else None
         | [] \<Rightarrow> None)"

fun match_all :: "nat \<Rightarrow> (mark \<times> string) list \<Rightarrow> nat list option" where
  "match_all 0 items = Some []"
| "match_all (Suc i) items =
     (case match_one items of
        None \<Rightarrow> None
      | Some n \<Rightarrow> map_option (\<lambda>ns. n # ns) (match_all i (drop n items)))"

fun match_arguments_partial :: "nat \<Rightarrow> (mark \<times> string) list \<Rightarrow> nat list" where
  "match_arguments_partial 0 items = []"
| "match_arguments_partial (Suc i) items =
     (case match_all (Suc i) items of
        Some ns \<Rightarrow> ns
      | None \<Rightarrow> match_arguments_partial i items)"

text \<open>The argument strings of each positional, cut off one after the other.\<close>

fun slices :: "nat list \<Rightarrow> string list \<Rightarrow> string list list" where
  "slices [] strs = []"
| "slices (n # ns) strs = take n strs # slices ns (drop n strs)"

text \<open>\<^verbatim>\<open>consume_positionals\<close>: returns the number of strings consumed, the positionals
  left, and the state after their actions.\<close>

definition consume_positionals ::
  "(string \<Rightarrow> pyfloat option) \<Rightarrow> argspec list \<Rightarrow> (mark \<times> string) list \<Rightarrow> pstate \<Rightarrow>
     exc + nat \<times> argspec list \<times> pstate" where
  "consume_positionals fconv positionals items st =
     (let arg_counts = match_arguments_partial (length positionals) items;
          taken = zip positionals (slices arg_counts (map snd items))
      in case take_actions fconv taken st of
           Inl e \<Rightarrow> Inl e
         | Inr st' \<Rightarrow> Inr (sum_list arg_counts, drop (length arg_counts) positionals, st'))"

text \<open>\<^verbatim>\<open>extras.extend(strs)\<close>.\<close>

definition add_extras :: "string list \<Rightarrow> pstate \<Rightarrow> pstate" where
  "add_extras strs st = (case st of (ns, seen, extras) \<Rightarrow> (ns, seen, extras @ strs))"

text \<open>One round of the loop that alternates between positionals and options; \<open>items\<close>
  starts at \<^verbatim>\<open>start_index\<close> and holds an option. The result gives the number of
  strings the round consumed.\<close>

definition optional_round ::
  "(string \<Rightarrow> pyfloat option) \<Rightarrow> option_map \<Rightarrow> (mark \<times> string) list \<Rightarrow> pstate \<Rightarrow>
     exc + nat \<times> pstate" where
  "optional_round fconv osa items st =
     (let skipped = takeWhile (\<lambda>m. \<not> is_opt m) items;
          st1 = add_extras (map snd skipped) st
      in case dropWhile (\<lambda>m. \<not> is_opt m) items of
           [] \<Rightarrow> Inr (length skipped, st1)
         | item # following \<Rightarrow>
             (case consume_optional osa item following of
                Inl e \<Rightarrow> Inl e
              | Inr (tuples, extras, n) \<Rightarrow>
                  (case take_actions fconv tuples (add_extras extras st1) of
                     Inl e \<Rightarrow> Inl e
                   | Inr st2 \<Rightarrow> Inr (length skipped + 1 + n, st2))))"

text \<open>One round of the loop: when \<open>items\<close> does not start with an option, positionals
  are consumed first, and the round ends there if they took a string.\<close>

definition loop_round ::
  "(string \<Rightarrow> pyfloat option) \<Rightarrow> option_map \<Rightarrow> (mark \<times> string) list \<Rightarrow> argspec list \<Rightarrow> pstate \<Rightarrow>
     exc + nat \<times> argspec list \<times> pstate" where
  "loop_round fconv osa items positionals st =
     (case items of
        [] \<Rightarrow> Inr (0, positionals, st)
      | item # _ \<Rightarrow>
          if is_opt item then
            (case optional_round fconv osa items st of
               Inl e \<Rightarrow> Inl e
             | Inr (n, st') \<Rightarrow> Inr (n, positionals, st'))
          else
            (case consume_positionals fconv positionals items st of
               Inl e \<Rightarrow> Inl e
             | Inr (n, positionals', st') \<Rightarrow>
                 if 0 < n then Inr (n, positionals', st')
                 else
                   (case optional_round fconv osa items st' of
                      Inl e \<Rightarrow> Inl e
                    | Inr (n', st'') \<Rightarrow> Inr (n', positionals', st''))))"

text \<open>The loop itself runs while an option is left; it returns what is left for the
  final \<^verbatim>\<open>consume_positionals\<close>. Every round consumes a string, so the loop ends.\<close>

function interleave ::
  "(string \<Rightarrow> pyfloat option) \<Rightarrow> option_map \<Rightarrow> (mark \<times> string) list \<Rightarrow> argspec list \<Rightarrow> pstate \<Rightarrow>
     exc + (mark \<times> string) list \<times> argspec list \<times> pstate" where
  "interleave fconv osa items positionals st =
     (if list_ex is_opt items then
        (case loop_round fconv osa items positionals st of
           Inl e \<Rightarrow> Inl e
         | Inr (n, positionals', st') \<Rightarrow> interleave fconv osa (drop n items) positionals' st')
      else Inr (items, positionals, st))"
  by pat_completeness auto
termination
proof (relation "measure (\<lambda>(fconv, osa, items, positionals, st). length items)")
  show "wf (measure (\<lambda>(fconv :: string \<Rightarrow> pyfloat option, osa :: option_map,
                        items :: (mark \<times> string) list, positionals :: argspec list,
                        st :: pstate). length items))"
    by simp
next
  fix fconv :: "string \<Rightarrow> pyfloat option" and osa :: option_map
    and items :: "(mark \<times> string) list" and positionals :: "argspec list" and st :: pstate
    and x n y positionals' st'
  assume opt: "list_ex is_opt items"
    and round: "loop_round fconv osa items positionals st = Inr x"
    and x: "(n, y) = x" "(positionals', st') = y"
  have later: "dropWhile (\<lambda>m. \<not> is_opt m) items \<noteq> []"
    using opt by (simp add: list_ex_iff dropWhile_eq_Nil_conv)
  have "\<And>s r. optional_round fconv osa items s = Inr r \<Longrightarrow> 0 < fst r"
    using later by (auto simp: optional_round_def Let_def split: list.splits sum.splits)
  then have adv: "\<And>s k s'. optional_round fconv osa items s = Inr (k, s') \<Longrightarrow> 0 < k"
    by fastforce
  have round': "loop_round fconv osa items positionals st = Inr (n, positionals', st')"
    using round x by simp
  have "0 < n"
  proof (cases items)
    case Nil
    then show ?thesis using opt by simp
  next
    case (Cons item rest)
    show ?thesis
    proof (cases "is_opt item")
      case True
      then obtain s' where "optional_round fconv osa items st = Inr (n, s')"
        using round' Cons by (auto simp: loop_round_def split: sum.splits)
      then show ?thesis by (rule adv)
    next
      case False
      then obtain k p s1 where pos: "consume_positionals fconv positionals items st = Inr (k, p, s1)"
        using round' Cons by (auto simp: loop_round_def split: sum.splits)
      show ?thesis
      proof (cases "0 < k")
        case True
        then show ?thesis
          using round' Cons False pos by (simp add: loop_round_def)
      next
        case k0: False
        then obtain s' where "optional_round fconv osa items s1 = Inr (n, s')"
          using round' Cons False pos by (auto simp: loop_round_def split: sum.splits)
        then show ?thesis by (rule adv)
      qed
    qed
  qed
  moreover have "items \<noteq> []"
    using opt by auto
  ultimately show "((fconv, osa, drop n items, positionals', st'), (fconv, osa, items, positionals, st))
      \<in> measure (\<lambda>(fconv, osa, items, positionals, st). length items)"
    by simp
qed


declare interleave.simps [simp del]

subsection \<open>\<^verbatim>\<open>parse_args\<close>\<close>

text \<open>The namespace starts with the default of every action, in the order in which
  the actions were added (the help action has no destination).\<close>

definition initial_namespace :: "argspec list \<Rightarrow> namespace" where
  "initial_namespace actions =
     fold (\<lambda>a ns. if action a = Help \<or> hasattr ns (dest a) then ns
                    else dict_set (dest a) (dflt a) ns) actions []"

text \<open>After the arguments are consumed: an action that was not seen must not be
  required, and its default, when it is a string, goes through the conversion of its
  type.\<close>

fun finish_actions ::
  "(string \<Rightarrow> pyfloat option) \<Rightarrow> argspec list \<Rightarrow> argspec list \<Rightarrow> namespace \<Rightarrow> exc + namespace" where
  "finish_actions fconv [] seen ns = Inr ns"
| "finish_actions fconv (a # as) seen ns =
     (if a \<in> set seen then finish_actions fconv as seen ns
      else if required a then Inl (SystemExit 2)
      else case dflt a of
             PStr s \<Rightarrow>
               if action a \<noteq> Help \<and> map_of ns (dest a) = Some (PStr s) then
                 (case get_value fconv a s of
                    Inl e \<Rightarrow> Inl e
                  | Inr v \<Rightarrow> finish_actions fconv as seen (dict_set (dest a) v ns))
               else finish_actions fconv as seen ns
           | _ \<Rightarrow> finish_actions fconv as seen ns)"

text \<open>\<^verbatim>\<open>parse_args\<close>: the strings are marked, options and positionals are consumed,
  the actions not seen are checked, and any string left over is the usage error
  \<^verbatim>\<open>unrecognized arguments\<close>.\<close>

definition run_parser ::
  "(string \<Rightarrow> pyfloat option) \<Rightarrow> argspec list \<Rightarrow> string list \<Rightarrow> exc + namespace" where
  "run_parser fconv added args =
     (let actions = help_action # added;
          osa = option_string_actions actions;
          positionals = filter (\<lambda>a. option_strings a = []) actions
      in case classify osa args of
           Inl e \<Rightarrow> Inl e
         | Inr items \<Rightarrow>
             (case interleave fconv osa items positionals (initial_namespace actions, [], []) of
                Inl e \<Rightarrow> Inl e
              | Inr (items', positionals', st) \<Rightarrow>
                  (case consume_positionals fconv positionals' items' st of
                     Inl e \<Rightarrow> Inl e
                   | Inr (stop, positionals'', (ns, seen, extras)) \<Rightarrow>
                       (case finish_actions fconv actions seen ns of
                          Inl e \<Rightarrow> Inl e
                        | Inr ns' \<Rightarrow>
                            if extras @ map snd (drop stop items') \<noteq> []
                            then Inl (SystemExit 2) else Inr ns'))))"
section \<open>The two parsers of the module\<close>

definition SAMPLER_CHOICES :: "string list" where
  "SAMPLER_CHOICES =
     [''ddim'', ''k_dpm_2_a'', ''k_dpm_2'', ''k_euler_a'', ''k_euler'', ''k_heun'', ''k_lms'',
      ''plms'']"

text \<open>\<^verbatim>\<open>_create_arg_parser\<close>: the arguments of the command line that launches the
  program, in the order of the \<^verbatim>\<open>add_argument\<close> calls.\<close>

definition arg_arguments :: "argspec list" where
  "arg_arguments =
     [add_option [''--laion400m''] TStr PNone,
      add_option [''--weights''] TStr PNone,
      (add_option [''--conf'', ''-c'', ''-conf''] TStr (PStr ''./configs/models.yaml''))
        \<lparr>dest := ''conf''\<rparr>,
      add_option [''--model''] TStr (PStr ''stable-diffusion-1.4''),
      (add_option [''--from_file''] TStr PNone)\<lparr>dest := ''infile''\<rparr>,
      (add_flag [''-F'', ''--full_precision''])\<lparr>dest := ''full_precision''\<rparr>,
      add_option [''--outdir'', ''-o''] TStr (PStr ''outputs/img-samples''),
      add_flag [''--seamless''],
      add_flag [''--grid'', ''-g''],
      add_option [''--embedding_path''] TStr PNone,
      add_flag [''--prompt_as_dir'', ''-p''],
      add_option [''--gfpgan_bg_upsampler''] TStr (PStr ''realesrgan''),
      add_option [''--gfpgan_bg_tile''] TInt (PInt 400),
      add_option [''--gfpgan_model_path''] TStr
        (PStr ''experiments/pretrained_models/GFPGANv1.3.pth''),
      add_option [''--gfpgan_dir''] TStr (PStr ''./src/gfpgan''),
      (add_flag [''--web''])\<lparr>dest := ''web''\<rparr>,
      add_option [''--host''] TStr (PStr ''127.0.0.1''),
      add_option [''--port''] TInt (PStr ''9090'')]"

text \<open>The sampler switch of the command parser, with its closed set of choices.\<close>

definition sampler_argument :: argspec where
  "sampler_argument =
     (add_option [''-A'', ''-m'', ''--sampler''] TStr (PStr ''k_lms''))
       \<lparr>dest := ''sampler_name'', choices := Some (map PStr SAMPLER_CHOICES)\<rparr>"

text \<open>\<^verbatim>\<open>_create_cmd_parser\<close>: the positional prompt and the switches of a command
  line typed at the prompt.\<close>

definition cmd_arguments :: "argspec list" where
  "cmd_arguments =
     [add_positional ''prompt'',
      add_option [''-s'', ''--steps''] TInt (PInt 50),
      add_option [''-S'', ''--seed''] TInt PNone,
      add_option [''-n'', ''--iterations''] TInt (PInt 1),
      add_option [''-W'', ''--width''] TInt (PInt 512),
      add_option [''-H'', ''--height''] TInt (PInt 512),
      add_option [''-C'', ''--cfg_scale''] TFloat (PFloat (Fin (15 / 2))),
      add_flag [''--grid'', ''-g''],
      add_option [''--outdir'', ''-o''] TStr (PStr ''outputs/img-samples''),
      add_flag [''--seamless''],
      add_flag [''-i'', ''--individual''],
      add_option [''-I'', ''--init_img''] TStr (PStr ''''),
      add_option [''-M'', ''--init_mask''] TStr (PStr ''''),
      add_flag [''-T'', ''-fit'', ''--fit''],
      add_option [''-f'', ''--strength''] TFloat (PFloat (Fin (3 / 4))),
      add_option [''-G'', ''--gfpgan_strength''] TFloat (PInt 0),
      (add_option [''-U'', ''--upscale''] TFloat PNone)\<lparr>nargs := OneOrMore\<rparr>,
      add_flag [''--save_original'', ''-save_orig''],
      (add_option [''--embiggen'', ''-embiggen''] TFloat PNone)\<lparr>nargs := OneOrMore\<rparr>,
      (add_option [''--embiggen_tiles'', ''-embiggen_tiles''] TInt PNone)
        \<lparr>nargs := OneOrMore\<rparr>,
      add_flag [''-x'', ''--skip_normalize''],
      sampler_argument,
      add_flag [''-t'', ''--log_tokenization''],
      add_option [''-v'', ''--variation_amount''] TFloat (PFloat (Fin 0)),
      add_option [''-V'', ''--with_variations''] TStr PNone]"

definition create_arg_parser :: "(string \<Rightarrow> pyfloat option) \<Rightarrow> string list \<Rightarrow> exc + namespace" where
  "create_arg_parser fconv = run_parser fconv arg_arguments"

definition create_cmd_parser :: "(string \<Rightarrow> pyfloat option) \<Rightarrow> string list \<Rightarrow> exc + namespace" where
  "create_cmd_parser fconv = run_parser fconv cmd_arguments"

text \<open>
  Where a statement needs a concrete conversion for \<^verbatim>\<open>float\<close>, it uses
  \<open>decimal_float\<close>, the conversion of the interpreter: blanks around the text are dropped;
  an underscore may stand between two digits; a sign may come first; then either
  \<^verbatim>\<open>inf\<close>, \<^verbatim>\<open>infinity\<close> or \<^verbatim>\<open>nan\<close> in any case of letters, or a decimal numeral
  with at least one digit, an optional fraction and an optional exponent. The number
  denoted is rounded to the nearest binary64 float, to the even one of two nearest; what
  rounds beyond the largest float is infinite. (The bound of the conversion on texts of
  some \<open>10\<^sup>9\<close> digits is left out.)
\<close>

definition numeral_value :: "string \<Rightarrow> int" where
  "numeral_value ds = foldl (\<lambda>n c. n * 10 + digit_val c) 0 ds"

text \<open>Underscores are removed when each stands after a digit and before a digit;
  \<open>prev\<close> is the character before.\<close>

fun drop_underscores :: "char \<Rightarrow> string \<Rightarrow> string option" where
  "drop_underscores prev [] = (if prev = CHR ''_'' then None else Some [])"
| "drop_underscores prev (c # cs) =
     (if c = CHR ''_'' then (if is_digit prev then drop_underscores c cs else None)
      else if prev = CHR ''_'' \<and> \<not> is_digit c then None
      else map_option ((#) c) (drop_underscores c cs))"

definition split_sign :: "string \<Rightarrow> bool \<times> string" where
  "split_sign s =
     (case s of
        [] \<Rightarrow> (False, [])
      | c # cs \<Rightarrow>
          if c = CHR ''-'' then (True, cs) else if c = CHR ''+'' then (False, cs) else (False, s))"

definition lower :: "char \<Rightarrow> char" where
  "lower c =
     (case map_of (zip ''ABCDEFGHIJKLMNOPQRSTUVWXYZ'' ''abcdefghijklmnopqrstuvwxyz'') c of
        Some d \<Rightarrow> d
      | None \<Rightarrow> c)"

text \<open>The number that an unsigned decimal numeral denotes.\<close>

definition decimal_value :: "string \<Rightarrow> rat option" where
  "decimal_value body =
     (let whole = takeWhile is_digit body;
          after_whole = dropWhile is_digit body;
          point = (after_whole \<noteq> [] \<and> hd after_whole = CHR ''.'');
          fraction = (if point then takeWhile is_digit (tl after_whole) else []);
          after_fraction = (if point then dropWhile is_digit (tl after_whole) else after_whole);
          mantissa = of_int (numeral_value (whole @ fraction)) / 10 ^ length fraction
      in if whole = [] \<and> fraction = [] then None
         else case after_fraction of
                [] \<Rightarrow> Some mantissa
              | e # x \<Rightarrow>
                  if e = CHR ''e'' \<or> e = CHR ''E'' then
                    (case split_sign x of
                       (negative, ds) \<Rightarrow>
                         if ds \<noteq> [] \<and> list_all is_digit ds then
                           Some (if negative then mantissa / 10 ^ nat (numeral_value ds)
                                 else mantissa * 10 ^ nat (numeral_value ds))
                         else None)
                  else None)"

text \<open>Rounding to binary64. \<open>bit_length n\<close> is the number of binary digits of \<open>n\<close>;
  \<open>binary64\<close> takes the sign and the magnitude. A float has 53 significant binary digits,
  and its lowest binary digit has a weight of at least \<open>2\<^sup>-\<^sup>1\<^sup>0\<^sup>7\<^sup>4\<close>.\<close>

function bit_length :: "int \<Rightarrow> nat" where
  "bit_length n = (if n \<le> 0 then 0 else Suc (bit_length (n div 2)))"
  by pat_completeness auto

termination bit_length
  by (relation "measure nat") auto

declare bit_length.simps [simp del]

definition pow2 :: "int \<Rightarrow> rat" where
  "pow2 k = (if 0 \<le> k then 2 ^ nat k else 1 / 2 ^ nat (- k))"

definition round_half_even :: "rat \<Rightarrow> int" where
  "round_half_even q =
     (let f = \<lfloor>q\<rfloor>; d = q - of_int f
      in if d < 1 / 2 then f else if 1 / 2 < d then f + 1 else if even f then f else f + 1)"

definition binary64 :: "bool \<Rightarrow> rat \<Rightarrow> pyfloat" where
  "binary64 negative q =
     (if q = 0 then (if negative then NegZero else Fin 0)
      else case quotient_of q of
        (n, d) \<Rightarrow>
          (let k = int (bit_length n) - int (bit_length d);
               e = (if pow2 k \<le> q then k else k - 1);
               quantum = pow2 (max e (- 1022) - 52);
               r = of_int (round_half_even (q / quantum)) * quantum
           in if pow2 1024 \<le> r then (if negative then NegInf else PosInf)
              else if r = 0 then (if negative then NegZero else Fin 0)
              else Fin (if negative then - r else r)))"

definition decimal_float :: "string \<Rightarrow> pyfloat option" where
  "decimal_float s =
     (case drop_underscores (CHR 0x00) (strip s) of
        None \<Rightarrow> None
      | Some t \<Rightarrow>
          (case split_sign t of
             (negative, body) \<Rightarrow>
               (case decimal_value body of
                  Some q \<Rightarrow> Some (binary64 negative q)
                | None \<Rightarrow>
                    if map lower body = ''inf'' \<or> map lower body = ''infinity''
                    then Some (if negative then NegInf else PosInf)
                    else if map lower body = ''nan'' then Some NaN
                    else None)))"
section \<open>The configuration object\<close>

text \<open>
  A parser handle is modelled by its \<^verbatim>\<open>parse_args\<close> method: given the argument list it
  returns the parsed \<^verbatim>\<open>Namespace\<close> or leaves through \<^verbatim>\<open>SystemExit\<close>. An \<^verbatim>\<open>Args\<close>
  object has the four instance attributes that \<^verbatim>\<open>__init__\<close> sets, \<^verbatim>\<open>_arg_parser\<close>,
  \<^verbatim>\<open>_cmd_parser\<close>, \<^verbatim>\<open>_arg_switches\<close> and \<^verbatim>\<open>_cmd_switches\<close>; \<open>own_attrs\<close> holds
  the further attributes that \<^verbatim>\<open>__setattr__\<close> stores on the object itself.
\<close>

type_synonym parser = "string list \<Rightarrow> exc + namespace"

record args =
  arg_parser :: parser
  cmd_parser :: parser
  arg_switches :: namespace
  cmd_switches :: namespace
  own_attrs :: namespace

text \<open>What an attribute read can return: a plain value, one of the two records, a parser
  handle, or an attribute that lives on a class (a bound method, a built-in slot).\<close>

datatype attr = Value pyval | Record namespace | Handle parser | ClassAttr string

text \<open>The attributes that the class \<^verbatim>\<open>Args\<close> defines, and those it inherits from
  \<^verbatim>\<open>object\<close>.\<close>

definition class_methods :: "string list" where
  "class_methods =
     [''__init__'', ''parse_args'', ''parse_cmd'', ''json'', ''to_dict'', ''prompt_str'',
      ''__getattribute__'', ''__setattr__'', ''_create_arg_parser'', ''_create_cmd_parser'']"

definition object_attrs :: "string list" where
  "object_attrs =
     [''__class__'', ''__delattr__'', ''__dict__'', ''__dir__'', ''__doc__'', ''__eq__'',
      ''__format__'', ''__ge__'', ''__getstate__'', ''__gt__'', ''__hash__'',
      ''__init_subclass__'', ''__le__'', ''__lt__'', ''__module__'', ''__ne__'', ''__new__'',
      ''__reduce__'', ''__reduce_ex__'', ''__repr__'', ''__sizeof__'', ''__str__'',
      ''__subclasshook__'', ''__weakref__'']"

text \<open>\<^verbatim>\<open>object.__getattribute__(self, name)\<close>: the instance's own attributes first,
  then the class. \<open>None\<close> stands for the \<^verbatim>\<open>AttributeError\<close> that the method
  \<^verbatim>\<open>__getattribute__\<close> catches.\<close>

definition object_getattribute :: "args \<Rightarrow> string \<Rightarrow> attr option" where
  "object_getattribute st name =
     (if name = ''_arg_parser'' then Some (Handle (arg_parser st))
      else if name = ''_cmd_parser'' then Some (Handle (cmd_parser st))
      else if name = ''_arg_switches'' then Some (Record (arg_switches st))
      else if name = ''_cmd_switches'' then Some (Record (cmd_switches st))
      else case map_of (own_attrs st) name of
             Some v \<Rightarrow> Some (Value v)
           | None \<Rightarrow>
               if name \<in> set class_methods \<or> name \<in> set object_attrs
               then Some (ClassAttr name) else None)"

text \<open>\<^verbatim>\<open>getattr\<close> on a \<^verbatim>\<open>Namespace\<close> that has the attribute: the value of the
  field, or else the method of the class.\<close>

definition getattr :: "namespace \<Rightarrow> string \<Rightarrow> attr" where
  "getattr ns name = (case map_of ns name of Some v \<Rightarrow> Value v | None \<Rightarrow> ClassAttr name)"

text \<open>The branch \<^verbatim>\<open>name == '__dict__'\<close> of \<^verbatim>\<open>__getattribute__\<close>: \<^verbatim>\<open>a\<close> is the
  dictionary of the startup record itself, not a copy, so the update is a write to that
  record.\<close>

definition dict_view :: "args \<Rightarrow> namespace \<times> args" where
  "dict_view st =
     (let a = dict_update (arg_switches st) (cmd_switches st)
      in (a, st\<lparr>arg_switches := a\<rparr>))"

text \<open>\<^verbatim>\<open>__getattribute__\<close>. The two tests \<^verbatim>\<open>self._cmd_switches and ...\<close> and
  \<^verbatim>\<open>self._arg_switches and ...\<close> first take the truth value of the record.\<close>

definition getattribute :: "string \<Rightarrow> args \<Rightarrow> (exc + attr) \<times> args" where
  "getattribute name st =
     (if name = ''__dict__'' then
        (case dict_view st of (a, st') \<Rightarrow> (Inr (Record a), st'))
      else case object_getattribute st name of
             Some v \<Rightarrow> (Inr v, st)
           | None \<Rightarrow>
               if namespace_truthy (cmd_switches st) \<and> hasattr (cmd_switches st) name
               then (Inr (getattr (cmd_switches st) name), st)
               else if namespace_truthy (arg_switches st) \<and> hasattr (arg_switches st) name
               then (Inr (getattr (arg_switches st) name), st)
               else (Inl AttributeError, st))"

text \<open>\<^verbatim>\<open>__setattr__\<close>. A name with a leading underscore goes to
  \<^verbatim>\<open>object.__setattr__\<close>, which stores the value on the object itself; every other
  name is stored into the dictionary of the command record. (Replacing one of the four
  instance attributes by a plain value, and the interpreter's special names, are beyond
  \<open>object_setattr\<close>.)\<close>

definition object_setattr :: "string \<Rightarrow> pyval \<Rightarrow> args \<Rightarrow> args" where
  "object_setattr name v st = st\<lparr>own_attrs := dict_set name v (own_attrs st)\<rparr>"

definition setattr :: "string \<Rightarrow> pyval \<Rightarrow> args \<Rightarrow> args" where
  "setattr name v st =
     (if startswith name ''_'' then object_setattr name v st
      else st\<lparr>cmd_switches := dict_set name v (cmd_switches st)\<rparr>)"

text \<open>\<^verbatim>\<open>vars(self)\<close> reads \<^verbatim>\<open>self.__dict__\<close>, which is the branch above;
  \<^verbatim>\<open>a.update(kwargs)\<close> then writes the overrides into the same dictionary.\<close>

definition to_dict :: "namespace \<Rightarrow> args \<Rightarrow> namespace \<times> args" where
  "to_dict kwargs st =
     (case dict_view st of (a, st') \<Rightarrow>
        (let a' = dict_update a kwargs in (a', st'\<lparr>arg_switches := a'\<rparr>)))"


section \<open>Parsing a command line: \<^verbatim>\<open>parse_cmd\<close>\<close>

text \<open>The names bound at module level: the three imports, the three constants, the
  class and the function. A handler that mentions any other global name (that is not a
  built-in) raises \<^verbatim>\<open>NameError\<close> when it runs.\<close>

definition module_names :: "string list" where
  "module_names =
     [''argparse'', ''shlex'', ''json'', ''SAMPLER_CHOICES'', ''APP_ID'', ''APP_VERSION'',
      ''Args'', ''format_metadata'']"

definition global_name :: "string \<Rightarrow> exc + unit" where
  "global_name n = (if n \<in> set module_names then Inr () else Inl (NameError n))"

text \<open>\<^verbatim>\<open>cmd_string.replace("'", "\\'")\<close>: a backslash before every single quote.\<close>

definition escape_quotes :: "string \<Rightarrow> string" where
  "escape_quotes s = concat (map (\<lambda>c. if c = CHR 0x27 then [CHR 0x5C, CHR 0x27] else [c]) s)"

text \<open>The handler \<^verbatim>\<open>print(traceback.format_exc(), file=sys.stderr); return\<close>. The
  arguments of \<^verbatim>\<open>print\<close> are evaluated first, \<^verbatim>\<open>traceback\<close> then \<^verbatim>\<open>sys\<close>; only
  when both names resolve is the diagnostic printed and \<^verbatim>\<open>None\<close> returned.\<close>

definition tokenize_failed :: "exc + namespace option" where
  "tokenize_failed =
     (case global_name ''traceback'' of
        Inl e \<Rightarrow> Inl e
      | Inr _ \<Rightarrow> (case global_name ''sys'' of Inl e \<Rightarrow> Inl e | Inr _ \<Rightarrow> Inr None))"

text \<open>The loop over the tokens. The list \<^verbatim>\<open>switches\<close> is never empty, so it is kept as
  its first element (the prompt collected so far) and the rest; the third component is
  \<^verbatim>\<open>switches_started\<close>. \<^verbatim>\<open>el[0]\<close> raises \<^verbatim>\<open>IndexError\<close> on an empty token.\<close>

fun scan_elements ::
  "string list \<Rightarrow> string \<times> string list \<times> bool \<Rightarrow> exc + string \<times> string list \<times> bool" where
  "scan_elements [] acc = Inr acc"
| "scan_elements (el # els) (prompt, flags, started) =
     (case el of
        [] \<Rightarrow> Inl IndexError
      | c # _ \<Rightarrow>
          (let started' = (if c = CHR ''-'' \<and> \<not> started then True else started)
           in if started' then scan_elements els (prompt, flags @ [el], started')
              else scan_elements els (prompt @ el @ '' '', flags, started')))"

text \<open>The slice \<^verbatim>\<open>s[:k]\<close>; a negative \<^verbatim>\<open>k\<close> counts from the end.\<close>

definition slice_to :: "string \<Rightarrow> int \<Rightarrow> string" where
  "slice_to s k = (if k < 0 then take (nat (int (length s) + k)) s else take (nat k) s)"

text \<open>\<^verbatim>\<open>parse_cmd\<close>. The result is the record that the method returns, \<open>None\<close> for
  the \<^verbatim>\<open>return\<close> of the handler, or the exception that leaves the method; with it comes
  the object after the call. \<^verbatim>\<open>except ValueError\<close> catches what \<^verbatim>\<open>shlex.split\<close>
  raises; nothing catches what the loop or the parser raises, and the command record is
  assigned only when the parser has returned.\<close>

definition parse_cmd :: "string \<Rightarrow> args \<Rightarrow> (exc + namespace option) \<times> args" where
  "parse_cmd cmd_string st =
     (case shlex_split (escape_quotes cmd_string) of
        Inl ValueError \<Rightarrow> (tokenize_failed, st)
      | Inl e \<Rightarrow> (Inl e, st)
      | Inr elements \<Rightarrow>
          (case scan_elements elements ([], [], False) of
             Inl e \<Rightarrow> (Inl e, st)
           | Inr (prompt, flags, started) \<Rightarrow>
               (let switches = slice_to prompt (int (length prompt) - 1) # flags
                in case cmd_parser st switches of
                     Inl e \<Rightarrow> (Inl e, st)
                   | Inr ns \<Rightarrow> (Inr (Some ns), st\<lparr>cmd_switches := ns\<rparr>))))"

text \<open>\<^verbatim>\<open>parse_args\<close> hands the process's arguments (\<^verbatim>\<open>sys.argv[1:]\<close>) to the startup
  parser and stores the record.\<close>

definition parse_args :: "string list \<Rightarrow> args \<Rightarrow> (exc + namespace) \<times> args" where
  "parse_args argv st =
     (case arg_parser st argv of
        Inl e \<Rightarrow> (Inl e, st)
      | Inr ns \<Rightarrow> (Inr ns, st\<lparr>arg_switches := ns\<rparr>))"

text \<open>\<^verbatim>\<open>__init__\<close>: both parsers are created, the startup arguments are parsed, then
  the empty command line. Before \<^verbatim>\<open>__init__\<close> the two records do not exist; the model
  starts them empty, and every path that returns an object has set both. (The empty line
  always tokenizes, so \<^verbatim>\<open>parse_cmd('')\<close> does not return \<^verbatim>\<open>None\<close> here.)\<close>

definition init :: "(string \<Rightarrow> pyfloat option) \<Rightarrow> string list \<Rightarrow> exc + args" where
  "init fconv argv =
     (let st0 = \<lparr>arg_parser = create_arg_parser fconv, cmd_parser = create_cmd_parser fconv,
                 arg_switches = [], cmd_switches = [], own_attrs = []\<rparr>
      in case parse_args argv st0 of
           (Inl e, _) \<Rightarrow> Inl e
         | (Inr a, st1) \<Rightarrow>
             (case parse_cmd [] (st1\<lparr>arg_switches := a\<rparr>) of
                (Inl e, _) \<Rightarrow> Inl e
              | (Inr None, st2) \<Rightarrow> Inr st2
              | (Inr (Some c), st2) \<Rightarrow> Inr (st2\<lparr>cmd_switches := c\<rparr>)))"

section \<open>The normalized prompt: \<^verbatim>\<open>prompt_str\<close>\<close>

text \<open>Truth value, \<^verbatim>\<open>len\<close>, the comparison \<^verbatim>\<open>> 0\<close> and iteration, as Python
  defines them on the values of the model.\<close>

fun float_truthy :: "pyfloat \<Rightarrow> bool" where
  "float_truthy (Fin r) = (r \<noteq> 0)"
| "float_truthy NegZero = False"
| "float_truthy _ = True"

fun py_truthy :: "pyval \<Rightarrow> bool" where
  "py_truthy PNone = False"
| "py_truthy (PBool b) = b"
| "py_truthy (PInt i) = (i \<noteq> 0)"
| "py_truthy (PFloat f) = float_truthy f"
| "py_truthy (PStr s) = (s \<noteq> [])"
| "py_truthy (PList xs) = (xs \<noteq> [])"

fun py_len :: "pyval \<Rightarrow> exc + nat" where
  "py_len (PStr s) = Inr (length s)"
| "py_len (PList xs) = Inr (length xs)"
| "py_len _ = Inl TypeError"

fun float_positive :: "pyfloat \<Rightarrow> bool" where
  "float_positive (Fin r) = (0 < r)"
| "float_positive PosInf = True"
| "float_positive _ = False"

fun py_positive :: "pyval \<Rightarrow> exc + bool" where
  "py_positive (PBool b) = Inr b"
| "py_positive (PInt i) = Inr (0 < i)"
| "py_positive (PFloat f) = Inr (float_positive f)"
| "py_positive _ = Inl TypeError"

fun py_iter :: "pyval \<Rightarrow> exc + pyval list" where
  "py_iter (PStr s) = Inr (map (\<lambda>c. PStr [c]) s)"
| "py_iter (PList xs) = Inr xs"
| "py_iter _ = Inl TypeError"

text \<open>\<^verbatim>\<open>str\<close> of an integer.\<close>

definition digit_char :: "nat \<Rightarrow> char" where
  "digit_char d = char_of (48 + d)"

fun nat_str :: "nat \<Rightarrow> string" where
  "nat_str n = (if n < 10 then [digit_char n] else nat_str (n div 10) @ [digit_char (n mod 10)])"

declare nat_str.simps [simp del]

definition int_str :: "int \<Rightarrow> string" where
  "int_str i = (if i < 0 then CHR ''-'' # nat_str (nat (- i)) else nat_str (nat i))"

text \<open>\<^verbatim>\<open>str(v)\<close>, which is also what an f-string field \<^verbatim>\<open>{v}\<close> gives. The text of a
  float and of a list is the library's; \<open>fmt\<close> stands for it.\<close>

fun py_str :: "(pyval \<Rightarrow> string) \<Rightarrow> pyval \<Rightarrow> string" where
  "py_str fmt PNone = ''None''"
| "py_str fmt (PBool b) = (if b then ''True'' else ''False'')"
| "py_str fmt (PInt i) = int_str i"
| "py_str fmt (PStr s) = s"
| "py_str fmt v = fmt v"

text \<open>\<^verbatim>\<open>sep.join(xs)\<close>.\<close>

fun py_join :: "string \<Rightarrow> string list \<Rightarrow> string" where
  "py_join sep [] = []"
| "py_join sep [x] = x"
| "py_join sep (x # y # ys) = x @ sep @ py_join sep (y # ys)"

text \<open>The statements of \<^verbatim>\<open>prompt_str\<close>, one definition for each kind; each gives the
  strings it appends to \<^verbatim>\<open>switches\<close>, or the exception it raises.\<close>

text \<open>\<^verbatim>\<open>switches.append(f'-s {a["steps"]}')\<close> and its like.\<close>

definition append_value :: "(pyval \<Rightarrow> string) \<Rightarrow> namespace \<Rightarrow> string \<Rightarrow> string \<Rightarrow> exc + string list" where
  "append_value fmt a lead key =
     (case dict_get a key of Inl e \<Rightarrow> Inl e | Inr v \<Rightarrow> Inr [lead @ py_str fmt v])"

text \<open>\<^verbatim>\<open>if a['seamless']: switches.append(f'--seamless')\<close> and its like.\<close>

definition append_flag :: "namespace \<Rightarrow> string \<Rightarrow> string \<Rightarrow> exc + string list" where
  "append_flag a key switch =
     (case dict_get a key of
        Inl e \<Rightarrow> Inl e
      | Inr v \<Rightarrow> Inr (if py_truthy v then [switch] else []))"

text \<open>\<^verbatim>\<open>if len(a['init_img'])>0: switches.append(f'-I {a.init_img}')\<close>. Here \<^verbatim>\<open>a\<close> is
  a dictionary, and \<^verbatim>\<open>a.init_img\<close> reads an attribute of the dictionary object, which
  has none of that name.\<close>

definition append_init_img :: "namespace \<Rightarrow> exc + string list" where
  "append_init_img a =
     (case dict_get a ''init_img'' of
        Inl e \<Rightarrow> Inl e
      | Inr v \<Rightarrow>
          (case py_len v of
             Inl e \<Rightarrow> Inl e
           | Inr n \<Rightarrow> if 0 < n then Inl AttributeError else Inr []))"

text \<open>\<^verbatim>\<open>if a['strength'] and len(a['init_img'])>0: switches.append(f'-f {a["strength"]}')\<close>.\<close>

definition append_strength :: "(pyval \<Rightarrow> string) \<Rightarrow> namespace \<Rightarrow> exc + string list" where
  "append_strength fmt a =
     (case dict_get a ''strength'' of
        Inl e \<Rightarrow> Inl e
      | Inr s \<Rightarrow>
          if py_truthy s then
            (case dict_get a ''init_img'' of
               Inl e \<Rightarrow> Inl e
             | Inr v \<Rightarrow>
                 (case py_len v of
                    Inl e \<Rightarrow> Inl e
                  | Inr n \<Rightarrow> if 0 < n then Inr [''-f '' @ py_str fmt s] else Inr []))
          else Inr [])"

text \<open>\<^verbatim>\<open>if a['gfpgan_strength']: switches.append(f'-G {a["gfpgan_strength"]}')\<close>.\<close>

definition append_if_truthy :: "(pyval \<Rightarrow> string) \<Rightarrow> namespace \<Rightarrow> string \<Rightarrow> string \<Rightarrow> exc + string list" where
  "append_if_truthy fmt a lead key =
     (case dict_get a key of
        Inl e \<Rightarrow> Inl e
      | Inr v \<Rightarrow> Inr (if py_truthy v then [lead @ py_str fmt v] else []))"

text \<open>\<^verbatim>\<open>if a['upscale']: switches.append(f'-U {" ".join([str(u) for u in a["upscale"]])}')\<close>
  and its like.\<close>

definition append_joined :: "(pyval \<Rightarrow> string) \<Rightarrow> namespace \<Rightarrow> string \<Rightarrow> string \<Rightarrow> exc + string list" where
  "append_joined fmt a lead key =
     (case dict_get a key of
        Inl e \<Rightarrow> Inl e
      | Inr v \<Rightarrow>
          if py_truthy v then
            (case py_iter v of
               Inl e \<Rightarrow> Inl e
             | Inr us \<Rightarrow> Inr [lead @ py_join '' '' (map (py_str fmt) us)])
          else Inr [])"

text \<open>\<^verbatim>\<open>if a['variation_amount'] > 0: switches.append(f'-v {a["variation_amount"]}')\<close>.\<close>

definition append_variation_amount :: "(pyval \<Rightarrow> string) \<Rightarrow> namespace \<Rightarrow> exc + string list" where
  "append_variation_amount fmt a =
     (case dict_get a ''variation_amount'' of
        Inl e \<Rightarrow> Inl e
      | Inr v \<Rightarrow>
          (case py_positive v of
             Inl e \<Rightarrow> Inl e
           | Inr b \<Rightarrow> Inr (if b then [''-v '' @ py_str fmt v] else [])))"

text \<open>The generator \<^verbatim>\<open>f'{seed}:{weight}' for seed, weight in a["with_variations"]\<close>:
  every element is unpacked into exactly two values.\<close>

definition unpack_pair :: "pyval \<Rightarrow> exc + pyval \<times> pyval" where
  "unpack_pair v =
     (case py_iter v of
        Inl e \<Rightarrow> Inl e
      | Inr [seed, weight] \<Rightarrow> Inr (seed, weight)
      | Inr _ \<Rightarrow> Inl ValueError)"

fun format_variations :: "(pyval \<Rightarrow> string) \<Rightarrow> pyval list \<Rightarrow> exc + string list" where
  "format_variations fmt [] = Inr []"
| "format_variations fmt (v # vs) =
     (case unpack_pair v of
        Inl e \<Rightarrow> Inl e
      | Inr (seed, weight) \<Rightarrow>
          (case format_variations fmt vs of
             Inl e \<Rightarrow> Inl e
           | Inr ts \<Rightarrow> Inr ((py_str fmt seed @ '':'' @ py_str fmt weight) # ts)))"

definition append_with_variations :: "(pyval \<Rightarrow> string) \<Rightarrow> namespace \<Rightarrow> exc + string list" where
  "append_with_variations fmt a =
     (case dict_get a ''with_variations'' of
        Inl e \<Rightarrow> Inl e
      | Inr v \<Rightarrow>
          if py_truthy v then
            (case py_iter v of
               Inl e \<Rightarrow> Inl e
             | Inr vs \<Rightarrow>
                 (case format_variations fmt vs of
                    Inl e \<Rightarrow> Inl e
                  | Inr ts \<Rightarrow> Inr [''-V '' @ py_join '','' ts]))
          else Inr [])"

text \<open>The statements run in order; the first exception ends the call.\<close>

fun in_order :: "(exc + string list) list \<Rightarrow> exc + string list" where
  "in_order [] = Inr []"
| "in_order (Inl e # ms) = Inl e"
| "in_order (Inr xs # ms) = (case in_order ms of Inl e \<Rightarrow> Inl e | Inr ys \<Rightarrow> Inr (xs @ ys))"

definition prompt_switches :: "(pyval \<Rightarrow> string) \<Rightarrow> namespace \<Rightarrow> exc + string list" where
  "prompt_switches fmt a =
     in_order
       [append_value fmt a [CHR 0x22] ''prompt'',
        append_value fmt a ''-s '' ''steps'',
        append_value fmt a ''-W '' ''width'',
        append_value fmt a ''-H '' ''height'',
        append_value fmt a ''-C '' ''cfg_scale'',
        append_value fmt a ''-A '' ''sampler_name'',
        append_value fmt a ''-S '' ''seed'',
        append_flag a ''seamless'' ''--seamless'',
        append_init_img a,
        append_flag a ''fit'' ''--fit'',
        append_strength fmt a,
        append_if_truthy fmt a ''-G '' ''gfpgan_strength'',
        append_joined fmt a ''-U '' ''upscale'',
        append_joined fmt a ''--embiggen '' ''embiggen'',
        append_joined fmt a ''--embiggen_tiles '' ''embiggen_tiles'',
        append_variation_amount fmt a,
        append_with_variations fmt a]"

text \<open>\<^verbatim>\<open>a = vars(self); a.update(kwargs)\<close> is the body of \<^verbatim>\<open>to_dict\<close>.\<close>

definition prompt_str :: "(pyval \<Rightarrow> string) \<Rightarrow> namespace \<Rightarrow> args \<Rightarrow> (exc + string) \<times> args" where
  "prompt_str fmt kwargs st =
     (case to_dict kwargs st of (a, st') \<Rightarrow>
        (case prompt_switches fmt a of
           Inl e \<Rightarrow> (Inl e, st')
         | Inr switches \<Rightarrow> (Inr (py_join '' '' switches), st')))"

section \<open>The object of a program started without arguments\<close>

text \<open>The two records as \<^verbatim>\<open>Args()\<close> leaves them when the program has no arguments:
  every field holds the default that its \<^verbatim>\<open>add_argument\<close> call declares, and the prompt
  is empty.\<close>

definition arg_defaults :: namespace where
  "arg_defaults =
     [(''laion400m'', PNone), (''weights'', PNone),
      (''conf'', PStr ''./configs/models.yaml''),
      (''model'', PStr ''stable-diffusion-1.4''), (''infile'', PNone),
      (''full_precision'', PBool False),
      (''outdir'', PStr ''outputs/img-samples''), (''seamless'', PBool False),
      (''grid'', PBool False), (''embedding_path'', PNone),
      (''prompt_as_dir'', PBool False),
      (''gfpgan_bg_upsampler'', PStr ''realesrgan''),
      (''gfpgan_bg_tile'', PInt 400),
      (''gfpgan_model_path'', PStr ''experiments/pretrained_models/GFPGANv1.3.pth''),
      (''gfpgan_dir'', PStr ''./src/gfpgan''), (''web'', PBool False),
      (''host'', PStr ''127.0.0.1''), (''port'', PInt 9090)]"

definition cmd_defaults :: namespace where
  "cmd_defaults =
     [(''prompt'', PStr []), (''steps'', PInt 50), (''seed'', PNone),
      (''iterations'', PInt 1), (''width'', PInt 512), (''height'', PInt 512),
      (''cfg_scale'', PFloat (Fin (15 / 2))), (''grid'', PBool False),
      (''outdir'', PStr ''outputs/img-samples''), (''seamless'', PBool False),
      (''individual'', PBool False), (''init_img'', PStr []),
      (''init_mask'', PStr []), (''fit'', PBool False),
      (''strength'', PFloat (Fin (3 / 4))), (''gfpgan_strength'', PInt 0),
      (''upscale'', PNone), (''save_original'', PBool False),
      (''embiggen'', PNone), (''embiggen_tiles'', PNone),
      (''skip_normalize'', PBool False), (''sampler_name'', PStr ''k_lms''),
      (''log_tokenization'', PBool False),
      (''variation_amount'', PFloat (Fin 0)), (''with_variations'', PNone)]"

definition fresh_args :: args where
  "fresh_args =
     \<lparr>arg_parser = create_arg_parser decimal_float,
      cmd_parser = create_cmd_parser decimal_float,
      arg_switches = arg_defaults, cmd_switches = cmd_defaults, own_attrs = []\<rparr>"

section \<open>Notions used in the statements\<close>

text \<open>A value whose text has no double quote, and whose elements, when the code iterates
  over it, have none either.\<close>

fun quote_free :: "(pyval \<Rightarrow> string) \<Rightarrow> pyval \<Rightarrow> bool" where
  "quote_free fmt (PStr s) = (CHR 0x22 \<notin> set s)"
| "quote_free fmt (PFloat f) = (CHR 0x22 \<notin> set (fmt (PFloat f)))"
| "quote_free fmt (PList xs) = (CHR 0x22 \<notin> set (fmt (PList xs)) \<and> (\<forall>x \<in> set xs. quote_free fmt x))"
| "quote_free fmt _ = True"

section \<open>Properties\<close>

lemma map_of_dict_set: "map_of (dict_set k v d) = (map_of d)(k \<mapsto> v)"
  by (simp add: dict_set_def update_conv')

lemma map_of_dict_update: "map_of (dict_update d e) = map_of d ++ map_of (rev e)"
  unfolding dict_update_def
proof (induction e arbitrary: d)
  case Nil
  show ?case by simp
next
  case (Cons p e)
  obtain k v where p: "p = (k, v)" by (cases p)
  have "map_of (fold (\<lambda>(k, v). dict_set k v) e (dict_set k v d))
          = map_of (dict_set k v d) ++ map_of (rev e)"
    by (rule Cons.IH)
  also have "\<dots> = map_of d ++ map_of (rev ((k, v) # e))"
    by (rule ext) (simp add: map_of_dict_set map_add_def split: option.splits)
  finally show ?case by (simp add: p)
qed


subsection \<open>The two parsers without input\<close>

lemma arg_parser_no_arguments: "create_arg_parser fconv [] = Inr arg_defaults"
  by code_simp

lemma cmd_parser_empty_prompt: "create_cmd_parser fconv [[]] = Inr cmd_defaults"
  by code_simp

lemma shlex_split_empty: "shlex_split (escape_quotes []) = Inr []"
  by (simp add: shlex_split_def escape_quotes_def)

lemma parse_cmd_empty:
  "cmd_parser st = create_cmd_parser fconv \<Longrightarrow>
     parse_cmd [] st = (Inr (Some cmd_defaults), st\<lparr>cmd_switches := cmd_defaults\<rparr>)"
  by (simp add: parse_cmd_def shlex_split_empty slice_to_def cmd_parser_empty_prompt)

lemma init_no_arguments: "init decimal_float [] = Inr fresh_args"
  by (simp add: init_def parse_args_def arg_parser_no_arguments parse_cmd_empty fresh_args_def)

text \<open>Every object that \<^verbatim>\<open>__init__\<close> returns has the record of the startup arguments
  and the default command record.\<close>

lemma init_records:
  assumes "init fconv argv = Inr st"
  shows "create_arg_parser fconv argv = Inr (arg_switches st)"
    and "cmd_switches st = cmd_defaults" and "own_attrs st = []"
    and "arg_parser st = create_arg_parser fconv" and "cmd_parser st = create_cmd_parser fconv"
proof -
  obtain a where a: "create_arg_parser fconv argv = Inr a"
    using assms by (auto simp: init_def parse_args_def Let_def split: sum.splits)
  let ?st1 = "\<lparr>arg_parser = create_arg_parser fconv, cmd_parser = create_cmd_parser fconv,
                arg_switches = a, cmd_switches = [], own_attrs = []\<rparr>"
  have "parse_cmd [] ?st1 = (Inr (Some cmd_defaults), ?st1\<lparr>cmd_switches := cmd_defaults\<rparr>)"
    by (rule parse_cmd_empty) simp
  then have "st = ?st1\<lparr>cmd_switches := cmd_defaults\<rparr>"
    using assms a by (simp add: init_def parse_args_def)
  then show "create_arg_parser fconv argv = Inr (arg_switches st)"
    and "cmd_switches st = cmd_defaults" and "own_attrs st = []"
    and "arg_parser st = create_arg_parser fconv" and "cmd_parser st = create_cmd_parser fconv"
    using a by simp_all
qed

lemma parse_cmd_failure_keeps_state:
  "fst (parse_cmd s st) = Inl e \<or> fst (parse_cmd s st) = Inr None \<Longrightarrow> snd (parse_cmd s st) = st"
  by (auto simp: parse_cmd_def Let_def split: sum.splits exc.splits prod.splits)

lemma parse_cmd_untokenizable:
  "shlex_split (escape_quotes s) = Inl ValueError \<Longrightarrow>
     parse_cmd s st = (Inl (NameError ''traceback''), st)"
  by (simp add: parse_cmd_def tokenize_failed_def global_name_def module_names_def)

lemma shlex_only_value_error: "lexer q esc tok quoted s = Inl e \<Longrightarrow> e = ValueError"
  by (induction q esc tok quoted s rule: lexer.induct)
     (auto simp: emit_def Let_def split: if_splits sum.splits lexstate.splits)


lemma fresh_parsers [simp]:
  "cmd_parser fresh_args = create_cmd_parser decimal_float"
  "arg_parser fresh_args = create_arg_parser decimal_float"
  by (simp_all add: fresh_args_def)

lemma map_of_rev_distinct: "distinct (map fst xs) \<Longrightarrow> map_of (rev xs) = map_of xs"
proof (induction xs)
  case Nil
  show ?case by simp
next
  case (Cons x xs)
  obtain k v where x: "x = (k, v)" by (cases x)
  have "map_of xs k = None"
    using Cons.prems x by (simp add: map_of_eq_None_iff)
  then have "map_of (rev xs) k = None"
    using Cons by simp
  then show ?case
    using Cons x by (auto simp: map_add_def fun_eq_iff split: option.splits)
qed

lemma dict_view_overlay:
  "map_of (fst (dict_view st)) = map_of (arg_switches st) ++ map_of (rev (cmd_switches st))"
  by (simp add: dict_view_def Let_def map_of_dict_update)

lemma dict_view_alias: "arg_switches (snd (dict_view st)) = fst (dict_view st)"
  by (simp add: dict_view_def Let_def)

lemma distinct_dict_set: "distinct (map fst d) \<Longrightarrow> distinct (map fst (dict_set k v d))"
  by (simp add: dict_set_def distinct_update)

subsection \<open>Reading attributes\<close>

text \<open>A field of a record is an attribute of it, and reading the attribute gives the
  value of the field.\<close>

lemma attr_of_field: "map_of ns name = Some v \<Longrightarrow> hasattr ns name \<and> getattr ns name = Value v"
  by (simp add: hasattr_def getattr_def)

text \<open>The names that \<^verbatim>\<open>object.__getattribute__\<close> finds on the object itself: the four
  instance attributes that \<^verbatim>\<open>__init__\<close> sets, the attributes stored on the object later,
  and the attributes of its class.\<close>

lemma own_attribute_names:
  "object_getattribute st name = None \<longleftrightarrow>
     name \<notin> {''_arg_parser'', ''_cmd_parser'', ''_arg_switches'', ''_cmd_switches''}
     \<and> map_of (own_attrs st) name = None
     \<and> name \<notin> set class_methods \<and> name \<notin> set object_attrs"
  by (auto simp: object_getattribute_def split: option.splits)

text \<open>A read of a name that the object itself does not have goes to the two records, the
  command record first; a record has the name when it has a field of that name or when
  its class has a method of that name. The object is left as it was.\<close>

lemma getattribute_records:
  assumes "object_getattribute st name = None"
  shows "(hasattr (cmd_switches st) name \<longrightarrow>
            getattribute name st = (Inr (getattr (cmd_switches st) name), st))
       \<and> (\<not> hasattr (cmd_switches st) name \<and> hasattr (arg_switches st) name \<longrightarrow>
            getattribute name st = (Inr (getattr (arg_switches st) name), st))
       \<and> (\<not> hasattr (cmd_switches st) name \<and> \<not> hasattr (arg_switches st) name \<longrightarrow>
            getattribute name st = (Inl AttributeError, st))"
proof -
  have "name \<noteq> ''__dict__''"
    using assms by (auto simp: object_getattribute_def object_attrs_def split: if_splits option.splits)
  then show ?thesis
    using assms by (simp add: getattribute_def namespace_truthy_def)
qed

lemma fresh_fields [simp]:
  "arg_switches fresh_args = arg_defaults" "cmd_switches fresh_args = cmd_defaults"
  "own_attrs fresh_args = []"
  by (simp_all add: fresh_args_def)

text \<open>
  Claim C1, amended. For a name that is not an attribute of the object itself (neither one
  of its instance attributes nor an attribute of its class) and not a method of the class
  of the records: when the command record has a field of that name, the read returns its
  value, also when the startup record has such a field too; when only the startup record
  has the field, the read returns that value; when neither has it, the read raises
  \<^verbatim>\<open>AttributeError\<close>. The object is left as it was.
\<close>

theorem getattribute_merge:
  assumes "object_getattribute st name = None" and "name \<notin> set namespace_methods"
  shows "(\<forall>v. map_of (cmd_switches st) name = Some v \<longrightarrow>
            getattribute name st = (Inr (Value v), st))
       \<and> (\<forall>v. map_of (cmd_switches st) name = None \<and> map_of (arg_switches st) name = Some v \<longrightarrow>
            getattribute name st = (Inr (Value v), st))
       \<and> (map_of (cmd_switches st) name = None \<and> map_of (arg_switches st) name = None \<longrightarrow>
            getattribute name st = (Inl AttributeError, st))"
  using getattribute_records [OF assms(1)] assms(2)
  by (auto simp: hasattr_def getattr_def)

theorem getattribute_merge_witness:
  "object_getattribute fresh_args ''grid'' = None \<and> ''grid'' \<notin> set namespace_methods
   \<and> map_of (cmd_switches (setattr ''grid'' (PBool True) fresh_args)) ''grid'' = Some (PBool True)
   \<and> map_of (arg_switches (setattr ''grid'' (PBool True) fresh_args)) ''grid'' = Some (PBool False)
   \<and> getattribute ''grid'' (setattr ''grid'' (PBool True) fresh_args)
         = (Inr (Value (PBool True)), setattr ''grid'' (PBool True) fresh_args)
   \<and> getattribute ''steps'' fresh_args = (Inr (Value (PInt 50)), fresh_args)
   \<and> getattribute ''model'' fresh_args = (Inr (Value (PStr ''stable-diffusion-1.4'')), fresh_args)
   \<and> getattribute ''colour'' fresh_args = (Inl AttributeError, fresh_args)"
proof -
  let ?st = "setattr ''grid'' (PBool True) fresh_args"
  have own: "object_getattribute ?st ''grid'' = None" "object_getattribute fresh_args ''steps'' = None"
    "object_getattribute fresh_args ''model'' = None" "object_getattribute fresh_args ''colour'' = None"
    "object_getattribute fresh_args ''grid'' = None"
    by (simp_all add: object_getattribute_def setattr_def startswith_def class_methods_def object_attrs_def)
  have nm: "''grid'' \<notin> set namespace_methods" "''steps'' \<notin> set namespace_methods"
    "''model'' \<notin> set namespace_methods" "''colour'' \<notin> set namespace_methods"
    by (simp_all add: namespace_methods_def)
  have flds: "cmd_switches ?st = dict_set ''grid'' (PBool True) cmd_defaults"
    "arg_switches ?st = arg_defaults"
    by (simp_all add: setattr_def startswith_def)
  have a: "map_of (cmd_switches ?st) ''grid'' = Some (PBool True)"
    "map_of (arg_switches ?st) ''grid'' = Some (PBool False)"
    by (simp_all add: flds map_of_dict_set, simp add: arg_defaults_def)
  have b: "map_of (cmd_switches fresh_args) ''steps'' = Some (PInt 50)"
    by (simp add: cmd_defaults_def)
  have c: "map_of (cmd_switches fresh_args) ''model'' = None"
    "map_of (arg_switches fresh_args) ''model'' = Some (PStr ''stable-diffusion-1.4'')"
    by (simp_all add: cmd_defaults_def arg_defaults_def)
  have d: "map_of (cmd_switches fresh_args) ''colour'' = None"
    "map_of (arg_switches fresh_args) ''colour'' = None"
    by (simp_all add: cmd_defaults_def arg_defaults_def)
  show ?thesis
    using getattribute_merge [OF own(1) nm(1)] getattribute_merge [OF own(2) nm(2)]
      getattribute_merge [OF own(3) nm(3)] getattribute_merge [OF own(4) nm(4)] own(5) nm(1) a b c d
    by simp
qed

text \<open>The claim as stated sets apart only the four declared fields. The methods of the
  object are found on the object before the records are looked into: on an object that
  has just been made, \<^verbatim>\<open>prompt_str\<close> is a field of neither record and the read returns
  the method. A method of the class of the records is found on the command record:
  \<^verbatim>\<open>_get_kwargs\<close> is a field of neither record and the read returns the method.\<close>

theorem getattribute_method_counterexample:
  "''prompt_str'' \<notin> {''_arg_parser'', ''_cmd_parser'', ''_arg_switches'', ''_cmd_switches''}
   \<and> map_of (cmd_switches fresh_args) ''prompt_str'' = None
   \<and> map_of (arg_switches fresh_args) ''prompt_str'' = None
   \<and> fst (getattribute ''prompt_str'' fresh_args) = Inr (ClassAttr ''prompt_str'')
   \<and> ''_get_kwargs'' \<notin> {''_arg_parser'', ''_cmd_parser'', ''_arg_switches'', ''_cmd_switches''}
   \<and> map_of (cmd_switches fresh_args) ''_get_kwargs'' = None
   \<and> map_of (arg_switches fresh_args) ''_get_kwargs'' = None
   \<and> fst (getattribute ''_get_kwargs'' fresh_args) = Inr (ClassAttr ''_get_kwargs'')"
proof -
  have f: "map_of (cmd_switches fresh_args) ''prompt_str'' = None"
    "map_of (arg_switches fresh_args) ''prompt_str'' = None"
    "map_of (cmd_switches fresh_args) ''_get_kwargs'' = None"
    "map_of (arg_switches fresh_args) ''_get_kwargs'' = None"
    by (simp_all add: cmd_defaults_def arg_defaults_def)
  have m: "fst (getattribute ''prompt_str'' fresh_args) = Inr (ClassAttr ''prompt_str'')"
    by (simp add: getattribute_def object_getattribute_def class_methods_def)
  have "object_getattribute fresh_args ''_get_kwargs'' = None"
    by (simp add: object_getattribute_def class_methods_def object_attrs_def)
  then have k: "fst (getattribute ''_get_kwargs'' fresh_args) = Inr (ClassAttr ''_get_kwargs'')"
    using f(3) by (simp add: getattribute_def namespace_truthy_def hasattr_def getattr_def
        namespace_methods_def)
  show ?thesis using f m k by simp
qed

subsection \<open>Splitting a command line\<close>

text \<open>What \<^verbatim>\<open>parse_cmd\<close> hands to the flag parser when no token is empty: the tokens
  before the first one that starts with a dash, joined by single spaces, and then that
  token and all that follow it.\<close>

lemma scan_elements_started:
  "[] \<notin> set els \<Longrightarrow> scan_elements els (p, fl, True) = Inr (p, fl @ els, True)"
  by (induction els arbitrary: fl) (auto split: list.splits)

lemma scan_elements_split:
  "[] \<notin> set els \<Longrightarrow>
     scan_elements els (p, fl, False) =
       Inr (p @ concat (map (\<lambda>t. t @ '' '') (takeWhile (\<lambda>t. \<not> startswith t ''-'') els)),
            fl @ dropWhile (\<lambda>t. \<not> startswith t ''-'') els,
            list_ex (\<lambda>t. startswith t ''-'') els)"
proof (induction els arbitrary: p)
  case Nil
  show ?case by simp
next
  case (Cons el els)
  then obtain c r where el: "el = c # r" by (cases el) auto
  show ?case
  proof (cases "c = CHR ''-''")
    case True
    then show ?thesis
      using Cons.prems el by (simp add: startswith_def scan_elements_started)
  next
    case False
    then show ?thesis
      using Cons el by (simp add: startswith_def)
  qed
qed

lemma slice_to_butlast: "slice_to s (int (length s) - 1) = butlast s"
  by (cases s rule: rev_cases) (auto simp: slice_to_def)

lemma concat_with_sep:
  "ts \<noteq> [] \<Longrightarrow> concat (map (\<lambda>t. t @ sep) ts) = py_join sep ts @ sep"
proof (induction ts)
  case Nil
  then show ?case by simp
next
  case (Cons t ts)
  then show ?case by (cases ts) simp_all
qed

lemma butlast_spaced: "butlast (concat (map (\<lambda>t. t @ '' '') ts)) = py_join '' '' ts"
proof (cases ts)
  case Nil
  then show ?thesis by simp
next
  case (Cons t ts')
  then have "concat (map (\<lambda>t. t @ '' '') ts) = py_join '' '' ts @ '' ''"
    by (intro concat_with_sep) simp
  then show ?thesis by (simp add: butlast_append)
qed

lemma parse_cmd_switches:
  assumes "shlex_split (escape_quotes s) = Inr els" and "[] \<notin> set els"
  shows "parse_cmd s st =
     (case cmd_parser st (py_join '' '' (takeWhile (\<lambda>t. \<not> startswith t ''-'') els)
                            # dropWhile (\<lambda>t. \<not> startswith t ''-'') els) of
        Inl e \<Rightarrow> (Inl e, st)
      | Inr ns \<Rightarrow> (Inr (Some ns), st\<lparr>cmd_switches := ns\<rparr>))"
  using assms
  by (simp add: parse_cmd_def scan_elements_split [where p = "[]" and fl = "[]", simplified]
        slice_to_butlast butlast_spaced)

text \<open>With an empty token the loop raises, wherever the token stands.\<close>

lemma scan_elements_empty_token:
  "[] \<in> set els \<Longrightarrow> scan_elements els acc = Inl IndexError"
  by (induction els acc rule: scan_elements.induct) (auto simp: Let_def split: list.splits)

lemma parse_cmd_empty_token_raises:
  "shlex_split (escape_quotes s) = Inr els \<Longrightarrow> [] \<in> set els \<Longrightarrow>
     parse_cmd s st = (Inl IndexError, st)"
  by (simp add: parse_cmd_def scan_elements_empty_token)

lemma tokens_cat_empty_init_img:
  "shlex_split (escape_quotes (''cat -I '' @ [CHR 0x22, CHR 0x22])) = Inr [''cat'', ''-I'', []]"
  by code_simp

text \<open>
  Claim C2. The claim holds for the command lines covered by \<open>parse_cmd_switches\<close>, but
  not for every line that tokenizes: a quoted empty string is a token, and on an empty
  token the test \<^verbatim>\<open>el[0] == '-'\<close> raises \<^verbatim>\<open>IndexError\<close>. The line
  \<^verbatim>\<open>cat -I ""\<close> tokenizes into \<^verbatim>\<open>cat\<close>, \<^verbatim>\<open>-I\<close> and the empty string; the call
  raises, no prompt is formed and nothing reaches the flag parser.
\<close>

theorem parse_cmd_empty_token:
  "parse_cmd (''cat -I '' @ [CHR 0x22, CHR 0x22]) st = (Inl IndexError, st)"
  using tokens_cat_empty_init_img by (rule parse_cmd_empty_token_raises) simp

subsection \<open>Writing attributes\<close>

text \<open>The instance attributes that \<^verbatim>\<open>__setattr__\<close> adds to the object itself have a
  leading underscore. On such an object, the names without a leading underscore that are
  attributes of the object itself are its five public methods.\<close>

lemma setattr_keeps_own_names:
  assumes "\<forall>k \<in> fst ` set (own_attrs st). startswith k ''_''"
  shows "\<forall>k \<in> fst ` set (own_attrs (setattr name v st)). startswith k ''_''"
proof (cases "startswith name ''_''")
  case True
  then have "fst ` set (own_attrs (setattr name v st)) = {name} \<union> fst ` set (own_attrs st)"
    by (simp add: setattr_def object_setattr_def dict_set_def dom_update)
  then show ?thesis using assms True by simp
next
  case False
  then show ?thesis using assms by (simp add: setattr_def)
qed

lemma own_public_names:
  assumes "\<not> startswith name ''_''" and "\<forall>k \<in> fst ` set (own_attrs st). startswith k ''_''"
  shows "object_getattribute st name = None \<longleftrightarrow>
           name \<notin> {''parse_args'', ''parse_cmd'', ''json'', ''to_dict'', ''prompt_str''}"
proof -
  have o: "map_of (own_attrs st) name = None"
    using assms by (force simp: map_of_eq_None_iff)
  have u: "\<And>r. name \<noteq> CHR ''_'' # r"
    using assms(1) by (auto simp: startswith_def)
  have "object_getattribute st name = (if name \<in> set class_methods \<or> name \<in> set object_attrs then Some (ClassAttr name) else None)"
    using u by (simp add: object_getattribute_def o)
  moreover have "name \<notin> set object_attrs"
    unfolding object_attrs_def using u by simp
  moreover have "name \<in> set class_methods \<longleftrightarrow> name \<in> {''parse_args'', ''parse_cmd'', ''json'', ''to_dict'', ''prompt_str''}"
    unfolding class_methods_def using u by auto
  ultimately show ?thesis by simp
qed


lemma object_getattribute_setattr:
  "\<not> startswith name ''_'' \<Longrightarrow> object_getattribute (setattr name v st) n = 
     (case object_getattribute st n of Some (Record r) \<Rightarrow>
         if n = ''_cmd_switches'' then Some (Record (dict_set name v (cmd_switches st))) else Some (Record r)
      | x \<Rightarrow> x)"
  by (auto simp: object_getattribute_def setattr_def split: option.splits)

lemma getattribute_written:
  assumes "\<not> startswith name ''_''" and "object_getattribute st name = None"
  shows "getattribute name (setattr name v st) = (Inr (Value v), setattr name v st)"
proof -
  have ne: "name \<noteq> ''__dict__''"
    using assms(2) by (auto simp: object_getattribute_def object_attrs_def split: if_splits option.splits)
  have "object_getattribute (setattr name v st) name = None"
    using assms by (simp add: object_getattribute_setattr)
  moreover have "cmd_switches (setattr name v st) = dict_set name v (cmd_switches st)"
    using assms(1) by (simp add: setattr_def)
  ultimately show ?thesis
    using ne by (simp add: getattribute_def namespace_truthy_def hasattr_def getattr_def map_of_dict_set)
qed

lemma parse_cmd_replaces_record:
  "fst (parse_cmd s st) = Inr (Some ns) \<Longrightarrow> snd (parse_cmd s st) = st\<lparr>cmd_switches := ns\<rparr>"
  by (auto simp: parse_cmd_def Let_def tokenize_failed_def global_name_def module_names_def
        split: sum.splits exc.splits prod.splits)

text \<open>
  Claim C3, amended. For a name without a leading underscore that is not an attribute of
  the object itself, an assignment stores the value in the command record and leaves the
  startup record as it is; the next read of the name returns the value written, whatever
  the startup record holds under that name; and a later \<^verbatim>\<open>parse_cmd\<close> that returns a
  record replaces the whole command record by it.
\<close>

theorem setattr_shadows_startup:
  assumes "\<not> startswith name ''_''" and "object_getattribute st name = None"
  shows "cmd_switches (setattr name v st) = dict_set name v (cmd_switches st)
       \<and> arg_switches (setattr name v st) = arg_switches st
       \<and> getattribute name (setattr name v st) = (Inr (Value v), setattr name v st)
       \<and> (\<forall>s ns. fst (parse_cmd s (setattr name v st)) = Inr (Some ns) \<longrightarrow>
             cmd_switches (snd (parse_cmd s (setattr name v st))) = ns)"
  using assms getattribute_written [OF assms]
  by (simp add: setattr_def parse_cmd_replaces_record)

text \<open>The claim as stated covers every name without a leading underscore. The names of
  the public methods are such names, and a read finds the method on the object before it
  looks into the records: after \<^verbatim>\<open>a.json = 5\<close> the command record holds the field, and
  \<^verbatim>\<open>a.json\<close> is still the method.\<close>

theorem setattr_own_method_counterexample:
  "\<not> startswith ''json'' ''_''
   \<and> map_of (cmd_switches (setattr ''json'' (PInt 5) fresh_args)) ''json'' = Some (PInt 5)
   \<and> fst (getattribute ''json'' (setattr ''json'' (PInt 5) fresh_args)) = Inr (ClassAttr ''json'')"
proof -
  have "\<not> startswith ''json'' ''_''"
    and "map_of (cmd_switches (setattr ''json'' (PInt 5) fresh_args)) ''json'' = Some (PInt 5)"
    by code_simp+
  moreover have "fst (getattribute ''json'' (setattr ''json'' (PInt 5) fresh_args))
      = Inr (ClassAttr ''json'')"
    by (simp add: getattribute_def object_getattribute_def setattr_def startswith_def
          fresh_args_def class_methods_def)
  ultimately show ?thesis by simp
qed

theorem setattr_shadows_startup_witness:
  "\<not> startswith ''outdir'' ''_'' \<and> object_getattribute fresh_args ''outdir'' = None
   \<and> map_of (arg_switches fresh_args) ''outdir'' = Some (PStr ''outputs/img-samples'')
   \<and> fst (getattribute ''outdir'' (setattr ''outdir'' (PStr ''tmp'') fresh_args)) = Inr (Value (PStr ''tmp''))
   \<and> map_of (arg_switches (setattr ''outdir'' (PStr ''tmp'') fresh_args)) ''outdir''
        = Some (PStr ''outputs/img-samples'')
   \<and> map_of (cmd_switches (snd (parse_cmd [] (setattr ''outdir'' (PStr ''tmp'') fresh_args)))) ''outdir''
        = Some (PStr ''outputs/img-samples'')"
proof -
  have h: "\<not> startswith ''outdir'' ''_''" "object_getattribute fresh_args ''outdir'' = None"
    by (simp_all add: startswith_def object_getattribute_def fresh_args_def class_methods_def
          object_attrs_def)
  have p: "fst (parse_cmd [] (setattr ''outdir'' (PStr ''tmp'') fresh_args)) = Inr (Some cmd_defaults)"
    by code_simp
  have a: "map_of (arg_switches fresh_args) ''outdir'' = Some (PStr ''outputs/img-samples'')"
    "map_of cmd_defaults ''outdir'' = Some (PStr ''outputs/img-samples'')"
    by code_simp+
  show ?thesis
    using setattr_shadows_startup [OF h, of "PStr ''tmp''"] h p a by simp
qed

text \<open>
  Claim C9, amended. An assignment to a name without a leading underscore cannot fail: it
  creates or overwrites that field of the command record and nothing else. The field is
  then part of the merged view (the keys of a dictionary are distinct), and a read returns
  the value written when the name is not an attribute of the object itself.
\<close>

theorem setattr_creates_field:
  assumes "\<not> startswith name ''_''"
  shows "map_of (cmd_switches (setattr name v st)) = (map_of (cmd_switches st))(name \<mapsto> v)
       \<and> arg_switches (setattr name v st) = arg_switches st
       \<and> (distinct (map fst (cmd_switches st)) \<longrightarrow>
            map_of (fst (dict_view (setattr name v st))) name = Some v)
       \<and> (object_getattribute st name = None \<longrightarrow>
            getattribute name (setattr name v st) = (Inr (Value v), setattr name v st))"
proof -
  have cmd: "cmd_switches (setattr name v st) = dict_set name v (cmd_switches st)"
    and arg: "arg_switches (setattr name v st) = arg_switches st"
    using assms by (simp_all add: setattr_def)
  have "map_of (fst (dict_view (setattr name v st))) name = Some v"
    if "distinct (map fst (cmd_switches st))"
  proof -
    have "distinct (map fst (dict_set name v (cmd_switches st)))"
      using that by (rule distinct_dict_set)
    then show ?thesis
      by (simp add: dict_view_overlay cmd map_of_rev_distinct map_of_dict_set)
  qed
  then show ?thesis
    using cmd arg getattribute_written [OF assms] by (simp add: map_of_dict_set)
qed

text \<open>For the name of a method the read does not return the value written.\<close>

theorem setattr_method_name_counterexample:
  "\<not> startswith ''to_dict'' ''_''
   \<and> fst (getattribute ''to_dict'' (setattr ''to_dict'' (PStr ''x'') fresh_args))
        = Inr (ClassAttr ''to_dict'')"
  by (simp add: getattribute_def object_getattribute_def setattr_def startswith_def
        fresh_args_def class_methods_def)

theorem setattr_creates_field_witness:
  "\<not> startswith ''colour'' ''_'' \<and> distinct (map fst (cmd_switches fresh_args))
   \<and> object_getattribute fresh_args ''colour'' = None
   \<and> map_of (cmd_switches fresh_args) ''colour'' = None
   \<and> map_of (cmd_switches (setattr ''colour'' (PStr ''red'') fresh_args)) ''colour'' = Some (PStr ''red'')
   \<and> map_of (fst (dict_view (setattr ''colour'' (PStr ''red'') fresh_args))) ''colour'' = Some (PStr ''red'')
   \<and> fst (getattribute ''colour'' (setattr ''colour'' (PStr ''red'') fresh_args)) = Inr (Value (PStr ''red''))"
proof -
  have h: "\<not> startswith ''colour'' ''_''"
    by (simp add: startswith_def)
  have d: "distinct (map fst (cmd_switches fresh_args))" "map_of (cmd_switches fresh_args) ''colour'' = None"
    by code_simp+
  have own: "object_getattribute fresh_args ''colour'' = None"
    by (simp add: object_getattribute_def fresh_args_def class_methods_def object_attrs_def)
  show ?thesis
    using setattr_creates_field [OF h, of "PStr ''red''" fresh_args] h d own by simp
qed

subsection \<open>Parsing the empty command line\<close>

lemma cmd_defaults_declared:
  "map_of cmd_defaults ''prompt'' = Some (PStr [])"
  "list_all (\<lambda>a. dest a = ''prompt'' \<or> map_of cmd_defaults (dest a) = Some (dflt a)) cmd_arguments"
  "map fst cmd_defaults = map dest cmd_arguments"
  by code_simp+

text \<open>
  Claim C4. With the command parser of the module, \<^verbatim>\<open>parse_cmd('')\<close> returns a fresh
  record and stores it in place of the command record, whatever that held before: the
  prompt is the empty string, every other declared argument has its declared default, and
  there are no further fields.
\<close>

theorem parse_cmd_empty_resets:
  assumes "cmd_parser st = create_cmd_parser fconv"
  shows "parse_cmd [] st = (Inr (Some cmd_defaults), st\<lparr>cmd_switches := cmd_defaults\<rparr>)
       \<and> map_of cmd_defaults ''prompt'' = Some (PStr [])
       \<and> (\<forall>a \<in> set cmd_arguments. dest a \<noteq> ''prompt'' \<longrightarrow>
             map_of cmd_defaults (dest a) = Some (dflt a))
       \<and> map fst cmd_defaults = map dest cmd_arguments"
  using parse_cmd_empty [OF assms] cmd_defaults_declared
  by (auto simp: list_all_iff)

theorem parse_cmd_empty_resets_witness:
  "cmd_parser (setattr ''steps'' (PInt 99) fresh_args) = create_cmd_parser decimal_float
   \<and> map_of (cmd_switches (setattr ''steps'' (PInt 99) fresh_args)) ''steps'' = Some (PInt 99)
   \<and> fst (parse_cmd [] (setattr ''steps'' (PInt 99) fresh_args)) = Inr (Some cmd_defaults)
   \<and> map_of (cmd_switches (snd (parse_cmd [] (setattr ''steps'' (PInt 99) fresh_args)))) ''steps''
        = Some (PInt 50)"
proof -
  have h: "cmd_parser (setattr ''steps'' (PInt 99) fresh_args) = create_cmd_parser decimal_float"
    by (simp add: setattr_def startswith_def)
  have w: "map_of (cmd_switches (setattr ''steps'' (PInt 99) fresh_args)) ''steps'' = Some (PInt 99)"
    "map_of cmd_defaults ''steps'' = Some (PInt 50)"
    by code_simp+
  show ?thesis
    using parse_cmd_empty_resets [OF h] h w by simp
qed

subsection \<open>Command lines that are not accepted\<close>

lemma tokens_unbalanced: "shlex_split (escape_quotes (''a '' @ [CHR 0x22] @ ''cat'')) = Inl ValueError"
  by code_simp

text \<open>
  Claim C5. The handler for a line that cannot be tokenized mentions \<^verbatim>\<open>traceback\<close> and
  \<^verbatim>\<open>sys\<close>, which the module does not import: it raises \<^verbatim>\<open>NameError\<close> before
  anything is printed, and the exception leaves \<^verbatim>\<open>parse_cmd\<close>. The line
  \<^verbatim>\<open>a "cat\<close> has an unmatched double quote. (The object is unchanged, as the claim
  says.)
\<close>

theorem parse_cmd_unbalanced_quote:
  "parse_cmd (''a '' @ [CHR 0x22] @ ''cat'') st = (Inl (NameError ''traceback''), st)"
  using tokens_unbalanced by (rule parse_cmd_untokenizable)

lemma cmd_positionals:
  "filter (\<lambda>a. option_strings a = []) (help_action # cmd_arguments) = [add_positional ''prompt'']"
  by code_simp

lemma cmd_option_A:
  "parse_optional (option_string_actions (help_action # cmd_arguments)) ''-A''
     = Inr (MOpt (Some sampler_argument) ''-A'' None None)"
  by code_simp

lemma parse_optional_error: "parse_optional osa s = Inl e \<Longrightarrow> e = SystemExit 2"
  by (auto simp: parse_optional_def split: list.splits if_splits option.splits prod.splits)

lemma classify_error: "classify osa ss = Inl e \<Longrightarrow> e = SystemExit 2"
  by (induction ss arbitrary: e) (auto split: if_splits sum.splits dest: parse_optional_error)

lemma take_prompt:
  "p \<noteq> ''--'' \<Longrightarrow> take_action fconv (add_positional ''prompt'') [p] (ns, seen, extras)
     = Inr (dict_set ''prompt'' (PStr p) ns, add_positional ''prompt'' # seen, extras)"
  by (simp add: take_action_def get_values_def get_value_def check_value_def add_positional_def)

lemma take_bad_sampler:
  "v \<notin> set SAMPLER_CHOICES \<Longrightarrow> take_action fconv sampler_argument [v] st = Inl (SystemExit 2)"
  by (cases st)
     (auto simp: take_action_def get_values_def get_value_def check_value_def sampler_argument_def
        add_option_def)

lemma interleave_bad_sampler:
  assumes "v \<notin> set SAMPLER_CHOICES" and "p \<noteq> ''--''"
  shows "interleave fconv osa
           [(MArg, p), (MOpt (Some sampler_argument) ''-A'' None None, ''-A''), (m, v)]
           [add_positional ''prompt''] (ns, [], []) = Inl (SystemExit 2)"
proof -
  let ?opt = "(MOpt (Some sampler_argument) ''-A'' None None, ''-A'')"
  have one: "nargs sampler_argument = One"
    by (simp add: sampler_argument_def add_option_def)
  have pos: "consume_positionals fconv [add_positional ''prompt''] [(MArg, p), ?opt, (m, v)] (ns, [], [])
      = Inr (1, [], (dict_set ''prompt'' (PStr p) ns, [add_positional ''prompt''], []))"
    using assms(2)
    by (simp add: consume_positionals_def match_one_def is_dash_def is_arg_def take_prompt)
  have round1: "loop_round fconv osa [(MArg, p), ?opt, (m, v)] [add_positional ''prompt''] (ns, [], [])
      = Inr (1, [], (dict_set ''prompt'' (PStr p) ns, [add_positional ''prompt''], []))"
    by (simp add: loop_round_def is_opt_def pos)
  have opt: "optional_round fconv osa [?opt, (m, v)] st = Inl (SystemExit 2)" for st
    using take_bad_sampler [OF assms(1)]
    by (cases "is_arg (m, v)")
       (simp_all add: optional_round_def is_opt_def consume_optional_def match_argument_def one
          add_extras_def split: prod.splits)
  have round2: "loop_round fconv osa [?opt, (m, v)] [] st = Inl (SystemExit 2)" for st
    by (simp add: loop_round_def is_opt_def opt)
  show ?thesis
    by (subst interleave.simps, simp add: is_opt_def round1, subst interleave.simps,
        simp add: is_opt_def round2)
qed


lemma bad_sampler_rejected:
  assumes "v \<notin> set SAMPLER_CHOICES" and "\<not> startswith p ''-''"
  shows "create_cmd_parser fconv [p, ''-A'', v] = Inl (SystemExit 2)"
proof -
  define osa where "osa = option_string_actions (help_action # cmd_arguments)"
  let ?opt = "(MOpt (Some sampler_argument) ''-A'' None None, ''-A'')"
  have p: "p \<noteq> ''--''" "parse_optional osa p = Inr MArg"
    using assms(2) by (auto simp: startswith_def parse_optional_def split: list.splits)
  have a: "parse_optional osa ''-A'' = Inr (MOpt (Some sampler_argument) ''-A'' None None)"
    unfolding osa_def by (rule cmd_option_A)
  have run: "create_cmd_parser fconv args =
      (case classify osa args of
         Inl e \<Rightarrow> Inl e
       | Inr items \<Rightarrow>
           (case interleave fconv osa items [add_positional ''prompt'']
                   (initial_namespace (help_action # cmd_arguments), [], []) of
              Inl e \<Rightarrow> Inl e
            | Inr (items', positionals', st) \<Rightarrow>
                (case consume_positionals fconv positionals' items' st of
                   Inl e \<Rightarrow> Inl e
                 | Inr (stop, positionals'', (ns, seen, extras)) \<Rightarrow>
                     (case finish_actions fconv (help_action # cmd_arguments) seen ns of
                        Inl e \<Rightarrow> Inl e
                      | Inr ns' \<Rightarrow>
                          if extras @ map snd (drop stop items') \<noteq> []
                          then Inl (SystemExit 2) else Inr ns'))))" for args
    unfolding create_cmd_parser_def run_parser_def Let_def cmd_positionals osa_def ..
  have "classify osa [p, ''-A'', v] = Inl (SystemExit 2)
      \<or> (\<exists>m. classify osa [p, ''-A'', v] = Inr [(MArg, p), ?opt, (m, v)])"
  proof (cases "v = ''--''")
    case True
    then show ?thesis using p a by simp
  next
    case False
    show ?thesis
    proof (cases "parse_optional osa v")
      case (Inl e)
      then have "e = SystemExit 2" by (rule parse_optional_error)
      then show ?thesis using p a False Inl by simp
    next
      case (Inr m)
      then show ?thesis using p a False by simp
    qed
  qed
  then show ?thesis
  proof
    assume err: "classify osa [p, ''-A'', v] = Inl (SystemExit 2)"
    show ?thesis unfolding run err by simp
  next
    assume "\<exists>m. classify osa [p, ''-A'', v] = Inr [(MArg, p), ?opt, (m, v)]"
    then obtain m where ok: "classify osa [p, ''-A'', v] = Inr [(MArg, p), ?opt, (m, v)]" ..
    show ?thesis
      unfolding run ok using interleave_bad_sampler [OF assms(1) p(1)] by simp
  qed
qed

lemma scan_elements_no_empty: "scan_elements els acc = Inr r \<Longrightarrow> [] \<notin> set els"
  by (induction els acc rule: scan_elements.induct) (auto split: list.splits if_splits simp: Let_def)

lemma join_no_dash:
  "\<forall>t \<in> set ts. t \<noteq> [] \<and> \<not> startswith t ''-'' \<Longrightarrow> \<not> startswith (py_join '' '' ts) ''-''"
proof (cases ts)
  case Nil
  then show ?thesis by (simp add: startswith_def)
next
  case (Cons t ts')
  assume "\<forall>t \<in> set ts. t \<noteq> [] \<and> \<not> startswith t ''-''"
  then obtain c r where "t = c # r" "c \<noteq> CHR ''-''"
    using Cons by (cases t) (auto simp: startswith_def)
  then show ?thesis
    using Cons by (cases ts') (simp_all add: startswith_def)
qed

lemma scanned_prompt_no_dash:
  assumes "scan_elements els ([], [], False) = Inr (p, fl, started)"
  shows "\<not> startswith (slice_to p (int (length p) - 1)) ''-''"
proof -
  have ne: "[] \<notin> set els"
    using assms by (rule scan_elements_no_empty)
  then have "p = concat (map (\<lambda>t. t @ '' '') (takeWhile (\<lambda>t. \<not> startswith t ''-'') els))"
    using assms scan_elements_split [OF ne, of "[]" "[]"] by simp
  then have "slice_to p (int (length p) - 1) = py_join '' '' (takeWhile (\<lambda>t. \<not> startswith t ''-'') els)"
    by (simp add: slice_to_butlast butlast_spaced)
  moreover have "\<forall>t \<in> set (takeWhile (\<lambda>t. \<not> startswith t ''-'') els). t \<noteq> [] \<and> \<not> startswith t ''-''"
    using ne by (auto dest: set_takeWhileD)
  ultimately show ?thesis
    using join_no_dash by simp
qed

text \<open>
  Claim C6, amended. When the flag parser rejects the switches of a command line,
  \<^verbatim>\<open>parse_cmd\<close> does not return: the exception of the parser, which for
  \<^verbatim>\<open>argparse\<close> is the \<^verbatim>\<open>SystemExit\<close> of \<^verbatim>\<open>sys.exit(2)\<close>, reaches the caller of
  \<^verbatim>\<open>parse_cmd\<close> as it reaches the caller of \<^verbatim>\<open>parse_args\<close> for the startup
  arguments, and the object is unchanged. So it is for a prompt followed by \<^verbatim>\<open>-A\<close> and
  any sampler outside \<^verbatim>\<open>SAMPLER_CHOICES\<close>.
\<close>

theorem parse_cmd_rejected:
  assumes "shlex_split (escape_quotes s) = Inr els"
    and "scan_elements els ([], [], False) = Inr (p, fl, started)"
  shows "(\<forall>e. cmd_parser st (slice_to p (int (length p) - 1) # fl) = Inl e \<longrightarrow>
            parse_cmd s st = (Inl e, st))
       \<and> (\<forall>fconv v. cmd_parser st = create_cmd_parser fconv \<and> fl = [''-A'', v]
              \<and> v \<notin> set SAMPLER_CHOICES \<longrightarrow>
            parse_cmd s st = (Inl (SystemExit 2), st))"
proof -
  have first: "parse_cmd s st = (Inl e, st)"
    if "cmd_parser st (slice_to p (int (length p) - 1) # fl) = Inl e" for e
    using assms that by (simp add: parse_cmd_def)
  have "parse_cmd s st = (Inl (SystemExit 2), st)"
    if "cmd_parser st = create_cmd_parser fconv" "fl = [''-A'', v]" "v \<notin> set SAMPLER_CHOICES"
    for fconv v
    using first that bad_sampler_rejected [OF that(3) scanned_prompt_no_dash [OF assms(2)]]
    by simp
  then show ?thesis
    using first by blast
qed

theorem parse_cmd_rejected_witness:
  "shlex_split (escape_quotes ''a cat -A foo'') = Inr [''a'', ''cat'', ''-A'', ''foo'']
   \<and> scan_elements [''a'', ''cat'', ''-A'', ''foo''] ([], [], False)
         = Inr (''a cat '', [''-A'', ''foo''], True)
   \<and> ''foo'' \<notin> set SAMPLER_CHOICES
   \<and> cmd_parser fresh_args (slice_to ''a cat '' (int (length ''a cat '') - 1) # [''-A'', ''foo''])
         = Inl (SystemExit 2)
   \<and> parse_cmd ''a cat -A foo'' fresh_args = (Inl (SystemExit 2), fresh_args)"
proof -
  have t: "shlex_split (escape_quotes ''a cat -A foo'') = Inr [''a'', ''cat'', ''-A'', ''foo'']"
    and c: "scan_elements [''a'', ''cat'', ''-A'', ''foo''] ([], [], False)
              = Inr (''a cat '', [''-A'', ''foo''], True)"
    and r: "cmd_parser fresh_args (slice_to ''a cat '' (int (length ''a cat '') - 1) # [''-A'', ''foo''])
              = Inl (SystemExit 2)"
    and v: "''foo'' \<notin> set SAMPLER_CHOICES"
    by code_simp+
  show ?thesis
    using parse_cmd_rejected [OF t c, of fresh_args] t c r v by simp
qed

text \<open>The claim as stated says that a malformed command line does not end the process.
  A sampler outside the declared choices makes \<^verbatim>\<open>parse_cmd\<close> leave through
  \<^verbatim>\<open>SystemExit\<close>.\<close>

theorem parse_cmd_bad_sampler_exits:
  "fst (parse_cmd ''cat -A euler'' fresh_args) = Inl (SystemExit 2)"
  by code_simp

subsection \<open>The normalized prompt\<close>

lemma in_order_Cons:
  "in_order (m # ms) = Inr sw \<longleftrightarrow> (\<exists>x r. m = Inr x \<and> in_order ms = Inr r \<and> sw = x @ r)"
  by (cases m) (auto split: sum.splits)

lemma append_value_Inr:
  "append_value fmt a lead key = Inr x \<longleftrightarrow> (\<exists>v. dict_get a key = Inr v \<and> x = [lead @ py_str fmt v])"
  by (auto simp: append_value_def split: sum.splits)

lemma py_join_Cons: "\<exists>rest. py_join sep (x # xs) = x @ rest"
  by (cases xs) simp_all

text \<open>With the fields of the first eight statements present and a non-empty string as
  the source image, the ninth statement raises.\<close>

lemma append_value_present:
  "map_of a key \<noteq> None \<Longrightarrow> \<exists>x. append_value fmt a lead key = Inr x"
  by (auto simp: append_value_def dict_get_def)

lemma prompt_switches_init_img:
  assumes "list_all (\<lambda>k. map_of a k \<noteq> None)
             [''prompt'', ''steps'', ''width'', ''height'', ''cfg_scale'', ''sampler_name'',
              ''seed'', ''seamless'']"
    and "map_of a ''init_img'' = Some (PStr img)" and "img \<noteq> []"
  shows "prompt_switches fmt a = Inl AttributeError"
proof -
  have present: "map_of a ''prompt'' \<noteq> None" "map_of a ''steps'' \<noteq> None"
    "map_of a ''width'' \<noteq> None" "map_of a ''height'' \<noteq> None" "map_of a ''cfg_scale'' \<noteq> None"
    "map_of a ''sampler_name'' \<noteq> None" "map_of a ''seed'' \<noteq> None" "map_of a ''seamless'' \<noteq> None"
    using assms(1) by simp_all
  obtain x1 where v1: "append_value fmt a [CHR 0x22] ''prompt'' = Inr x1"
    using append_value_present [OF present(1)] by blast
  obtain x2 where v2: "append_value fmt a ''-s '' ''steps'' = Inr x2"
    using append_value_present [OF present(2)] by blast
  obtain x3 where v3: "append_value fmt a ''-W '' ''width'' = Inr x3"
    using append_value_present [OF present(3)] by blast
  obtain x4 where v4: "append_value fmt a ''-H '' ''height'' = Inr x4"
    using append_value_present [OF present(4)] by blast
  obtain x5 where v5: "append_value fmt a ''-C '' ''cfg_scale'' = Inr x5"
    using append_value_present [OF present(5)] by blast
  obtain x6 where v6: "append_value fmt a ''-A '' ''sampler_name'' = Inr x6"
    using append_value_present [OF present(6)] by blast
  obtain x7 where v7: "append_value fmt a ''-S '' ''seed'' = Inr x7"
    using append_value_present [OF present(7)] by blast
  obtain x8 where f: "append_flag a ''seamless'' ''--seamless'' = Inr x8"
    using present(8) by (auto simp: append_flag_def dict_get_def)
  have i: "append_init_img a = Inl AttributeError"
    using assms(2,3) by (simp add: append_init_img_def dict_get_def)
  show ?thesis
    unfolding prompt_switches_def v1 v2 v3 v4 v5 v6 v7 f i by simp
qed

text \<open>So a call that returns a string had no source image: neither \<^verbatim>\<open>-I\<close> nor
  \<^verbatim>\<open>-f\<close> is ever part of a returned string.\<close>

lemma prompt_str_returns_without_init_img:
  assumes "fst (prompt_str fmt kwargs st) = Inr s"
  shows "\<exists>v. dict_get (fst (to_dict kwargs st)) ''init_img'' = Inr v \<and> py_len v = Inr 0"
proof -
  obtain a st' where td: "to_dict kwargs st = (a, st')" by (cases "to_dict kwargs st")
  then obtain sw where "prompt_switches fmt a = Inr sw"
    using assms by (auto simp: prompt_str_def split: sum.splits)
  then obtain x where "append_init_img a = Inr x"
    unfolding prompt_switches_def in_order_Cons by blast
  then show ?thesis
    using td by (auto simp: append_init_img_def split: sum.splits if_splits)
qed

text \<open>
  Claim C7. The statement for the source image reads \<^verbatim>\<open>a.init_img\<close>, an attribute of
  the dictionary, where every other statement reads a key. With a source image set,
  \<^verbatim>\<open>prompt_str\<close> raises \<^verbatim>\<open>AttributeError\<close> instead of emitting \<^verbatim>\<open>-I\<close>; the
  strength \<^verbatim>\<open>-f\<close>, which needs a source image, is therefore never emitted.
\<close>

theorem prompt_str_init_img_raises:
  "fst (prompt_str fmt [] (snd (parse_cmd ''cat -I x.png'' fresh_args))) = Inl AttributeError"
  by code_simp

lemma digit_char_no_quote: "d < 10 \<Longrightarrow> digit_char d \<noteq> CHR 0x22"
  unfolding digit_char_def char_of_eq_iff by (simp add: take_bit_eq_mod)

lemma nat_str_no_quote: "CHR 0x22 \<notin> set (nat_str n)"
proof (induction n rule: nat_str.induct)
  case (1 n)
  show ?case
  proof (cases "n < 10")
    case True
    then show ?thesis
      using digit_char_no_quote [of n] by (simp add: nat_str.simps [of n])
  next
    case False
    then show ?thesis
      using 1 digit_char_no_quote [of "n mod 10"] by (simp add: nat_str.simps [of n])
  qed
qed

lemma py_str_no_quote: "quote_free fmt v \<Longrightarrow> CHR 0x22 \<notin> set (py_str fmt v)"
  by (cases v) (auto simp: int_str_def nat_str_no_quote)

lemma py_iter_quote_free:
  "py_iter v = Inr us \<Longrightarrow> quote_free fmt v \<Longrightarrow> \<forall>u \<in> set us. quote_free fmt u"
  by (cases v) auto

lemma py_join_no_quote:
  "CHR 0x22 \<notin> set sep \<Longrightarrow> \<forall>x \<in> set xs. CHR 0x22 \<notin> set x \<Longrightarrow> CHR 0x22 \<notin> set (py_join sep xs)"
  by (induction sep xs rule: py_join.induct) auto

lemma format_variations_no_quote:
  "format_variations fmt vs = Inr ts \<Longrightarrow> \<forall>v \<in> set vs. quote_free fmt v \<Longrightarrow>
     \<forall>t \<in> set ts. CHR 0x22 \<notin> set t"
proof (induction vs arbitrary: ts)
  case Nil
  then show ?case by simp
next
  case (Cons v vs)
  then obtain seed weight ts' where u: "unpack_pair v = Inr (seed, weight)"
    and f: "format_variations fmt vs = Inr ts'"
    and ts: "ts = (py_str fmt seed @ '':'' @ py_str fmt weight) # ts'"
    by (auto split: sum.splits)
  from u have "py_iter v = Inr [seed, weight]"
    by (auto simp: unpack_pair_def split: sum.splits list.splits)
  then have "quote_free fmt seed" "quote_free fmt weight"
    using py_iter_quote_free [of v _ fmt] Cons.prems(2) by auto
  then show ?case
    using Cons.IH [OF f] Cons.prems(2) ts by (auto dest: py_str_no_quote)
qed


lemma in_order_all:
  "in_order ms = Inr sw \<Longrightarrow> \<forall>m \<in> set ms. \<forall>xs. m = Inr xs \<longrightarrow> (\<forall>x \<in> set xs. P x) \<Longrightarrow>
     \<forall>x \<in> set sw. P x"
proof (induction ms arbitrary: sw)
  case Nil
  then show ?case by simp
next
  case (Cons m ms)
  then obtain x r where "m = Inr x" "in_order ms = Inr r" "sw = x @ r"
    by (auto simp: in_order_Cons)
  then show ?case using Cons by auto
qed

lemma dict_get_Inr: "dict_get a k = Inr v \<longleftrightarrow> map_of a k = Some v"
  by (simp add: dict_get_def split: option.splits)

lemma value_no_quote:
  assumes "\<forall>k v. k \<noteq> ''prompt'' \<longrightarrow> map_of a k = Some v \<longrightarrow> quote_free fmt v"
    and "key \<noteq> ''prompt''" and "CHR 0x22 \<notin> set lead"
  shows "append_value fmt a lead key = Inr xs \<Longrightarrow> \<forall>x \<in> set xs. CHR 0x22 \<notin> set x"
    and "append_if_truthy fmt a lead key = Inr xs \<Longrightarrow> \<forall>x \<in> set xs. CHR 0x22 \<notin> set x"
  using assms
  by (auto simp: append_value_def append_if_truthy_def dict_get_Inr
        split: sum.splits if_splits dest!: py_str_no_quote)

lemma flag_no_quote:
  "CHR 0x22 \<notin> set switch \<Longrightarrow> append_flag a key switch = Inr xs \<Longrightarrow>
     \<forall>x \<in> set xs. CHR 0x22 \<notin> set x"
  by (auto simp: append_flag_def split: sum.splits if_splits)

lemma init_img_no_quote: "append_init_img a = Inr xs \<Longrightarrow> \<forall>x \<in> set xs. CHR 0x22 \<notin> set x"
  by (auto simp: append_init_img_def split: sum.splits if_splits)

lemma strength_no_quote:
  assumes "\<forall>k v. k \<noteq> ''prompt'' \<longrightarrow> map_of a k = Some v \<longrightarrow> quote_free fmt v"
  shows "append_strength fmt a = Inr xs \<Longrightarrow> \<forall>x \<in> set xs. CHR 0x22 \<notin> set x"
    and "append_variation_amount fmt a = Inr xs \<Longrightarrow> \<forall>x \<in> set xs. CHR 0x22 \<notin> set x"
proof -
  have s: "CHR 0x22 \<notin> set (py_str fmt v)" if "map_of a ''strength'' = Some v" for v
    using assms [rule_format, of "''strength''" v] that by (simp add: py_str_no_quote)
  have w: "CHR 0x22 \<notin> set (py_str fmt v)" if "map_of a ''variation_amount'' = Some v" for v
    using assms [rule_format, of "''variation_amount''" v] that by (simp add: py_str_no_quote)
  show "append_strength fmt a = Inr xs \<Longrightarrow> \<forall>x \<in> set xs. CHR 0x22 \<notin> set x"
    using s by (auto simp: append_strength_def dict_get_Inr split: sum.splits if_splits)
  show "append_variation_amount fmt a = Inr xs \<Longrightarrow> \<forall>x \<in> set xs. CHR 0x22 \<notin> set x"
    using w by (auto simp: append_variation_amount_def dict_get_Inr split: sum.splits if_splits)
qed

lemma joined_no_quote:
  assumes "\<forall>k v. k \<noteq> ''prompt'' \<longrightarrow> map_of a k = Some v \<longrightarrow> quote_free fmt v"
    and "key \<noteq> ''prompt''" and "CHR 0x22 \<notin> set lead"
    and "append_joined fmt a lead key = Inr xs"
  shows "\<forall>x \<in> set xs. CHR 0x22 \<notin> set x"
proof (cases "xs = []")
  case True
  then show ?thesis by simp
next
  case False
  then obtain v us where v: "map_of a key = Some v" and us: "py_iter v = Inr us"
    and xs: "xs = [lead @ py_join '' '' (map (py_str fmt) us)]"
    using assms(4) by (auto simp: append_joined_def dict_get_Inr split: sum.splits if_splits)
  have "quote_free fmt v" using assms(1,2) v by blast
  then have "\<forall>u \<in> set us. quote_free fmt u" using us py_iter_quote_free by blast
  then have "CHR 0x22 \<notin> set (py_join '' '' (map (py_str fmt) us))"
    by (intro py_join_no_quote) (auto dest: py_str_no_quote)
  then show ?thesis using xs assms(3) by simp
qed

lemma with_variations_no_quote:
  assumes "\<forall>k v. k \<noteq> ''prompt'' \<longrightarrow> map_of a k = Some v \<longrightarrow> quote_free fmt v"
    and "append_with_variations fmt a = Inr xs"
  shows "\<forall>x \<in> set xs. CHR 0x22 \<notin> set x"
proof (cases "xs = []")
  case True
  then show ?thesis by simp
next
  case False
  then obtain v vs ts where v: "map_of a ''with_variations'' = Some v" and vs: "py_iter v = Inr vs"
    and ts: "format_variations fmt vs = Inr ts" and xs: "xs = [''-V '' @ py_join '','' ts]"
    using assms(2) by (auto simp: append_with_variations_def dict_get_Inr split: sum.splits if_splits)
  have "quote_free fmt v" using assms(1) [rule_format, of "''with_variations''" v] v by simp
  then have "\<forall>u \<in> set vs. quote_free fmt u" using vs py_iter_quote_free by blast
  then have "\<forall>t \<in> set ts. CHR 0x22 \<notin> set t" using ts format_variations_no_quote by blast
  then have "CHR 0x22 \<notin> set (py_join '','' ts)"
    by (intro py_join_no_quote) auto
  then show ?thesis using xs by simp
qed

lemma count_join_head:
  "\<forall>x \<in> set xs. CHR 0x22 \<notin> set x \<Longrightarrow>
     count_list (py_join '' '' (y # xs)) (CHR 0x22) = count_list y (CHR 0x22)"
proof (cases xs)
  case Nil
  then show ?thesis by simp
next
  case (Cons x xs')
  assume "\<forall>x \<in> set xs. CHR 0x22 \<notin> set x"
  then have "CHR 0x22 \<notin> set (py_join '' '' (x # xs'))"
    using Cons by (intro py_join_no_quote) auto
  then show ?thesis using Cons by (simp add: count_list_0_iff)
qed

text \<open>
  Claim C10, amended. A string returned by \<^verbatim>\<open>prompt_str\<close> starts with a double quote,
  then the text of the prompt, then the separator and the steps switch: one double quote
  is put before the prompt and none after it. When no other field has a double quote in
  its text, the string has exactly one double quote more than the text of the prompt: an
  odd number exactly when the text of the prompt has an even number of them.
\<close>

theorem prompt_str_opening_quote:
  assumes "fst (prompt_str fmt kwargs st) = Inr s"
  shows "\<exists>p rest. dict_get (fst (to_dict kwargs st)) ''prompt'' = Inr p
           \<and> s = CHR 0x22 # py_str fmt p @ '' -s '' @ rest
           \<and> ((\<forall>k v. k \<noteq> ''prompt'' \<longrightarrow> map_of (fst (to_dict kwargs st)) k = Some v
                         \<longrightarrow> quote_free fmt v)
                \<longrightarrow> count_list s (CHR 0x22) = Suc (count_list (py_str fmt p) (CHR 0x22))
                  \<and> (odd (count_list s (CHR 0x22))
                        \<longleftrightarrow> even (count_list (py_str fmt p) (CHR 0x22))))"
proof -
  obtain a st' where td: "to_dict kwargs st = (a, st')" by (cases "to_dict kwargs st")
  then obtain sw where sw: "prompt_switches fmt a = Inr sw" and s: "s = py_join '' '' sw"
    using assms by (auto simp: prompt_str_def split: sum.splits)
  let ?rest = "[append_value fmt a ''-s '' ''steps'',
        append_value fmt a ''-W '' ''width'',
        append_value fmt a ''-H '' ''height'',
        append_value fmt a ''-C '' ''cfg_scale'',
        append_value fmt a ''-A '' ''sampler_name'',
        append_value fmt a ''-S '' ''seed'',
        append_flag a ''seamless'' ''--seamless'',
        append_init_img a,
        append_flag a ''fit'' ''--fit'',
        append_strength fmt a,
        append_if_truthy fmt a ''-G '' ''gfpgan_strength'',
        append_joined fmt a ''-U '' ''upscale'',
        append_joined fmt a ''--embiggen '' ''embiggen'',
        append_joined fmt a ''--embiggen_tiles '' ''embiggen_tiles'',
        append_variation_amount fmt a,
        append_with_variations fmt a]"
  from sw obtain p r where p: "dict_get a ''prompt'' = Inr p"
    and r: "in_order ?rest = Inr r" and sw': "sw = (CHR 0x22 # py_str fmt p) # r"
    unfolding prompt_switches_def in_order_Cons [of "append_value fmt a [CHR 0x22] ''prompt''"]
      append_value_Inr by auto
  from r obtain steps r' where "dict_get a ''steps'' = Inr steps"
    and r': "r = (''-s '' @ py_str fmt steps) # r'"
    unfolding in_order_Cons [of "append_value fmt a ''-s '' ''steps''"] append_value_Inr by auto
  then obtain rest where "py_join '' '' r = ''-s '' @ rest"
    using py_join_Cons [of "'' ''" "''-s '' @ py_str fmt steps" r'] by auto
  then have shape: "s = CHR 0x22 # py_str fmt p @ '' -s '' @ rest"
    using s sw' r' by simp
  have "count_list s (CHR 0x22) = Suc (count_list (py_str fmt p) (CHR 0x22))"
    if clean: "\<forall>k v. k \<noteq> ''prompt'' \<longrightarrow> map_of a k = Some v \<longrightarrow> quote_free fmt v"
  proof -
    have "\<forall>x \<in> set r. CHR 0x22 \<notin> set x"
      using r
    proof (rule in_order_all)
      note v = value_no_quote [OF clean] and j = joined_no_quote [OF clean]
      show "\<forall>m \<in> set ?rest. \<forall>xs. m = Inr xs \<longrightarrow> (\<forall>x \<in> set xs. CHR 0x22 \<notin> set x)"
        using v(1) [of "''steps''" "''-s ''"] v(1) [of "''width''" "''-W ''"]
          v(1) [of "''height''" "''-H ''"] v(1) [of "''cfg_scale''" "''-C ''"]
          v(1) [of "''sampler_name''" "''-A ''"] v(1) [of "''seed''" "''-S ''"]
          v(2) [of "''gfpgan_strength''" "''-G ''"]
          flag_no_quote [of "''--seamless''" a "''seamless''"]
          flag_no_quote [of "''--fit''" a "''fit''"]
          init_img_no_quote [of a] strength_no_quote [OF clean]
          j [of "''upscale''" "''-U ''"] j [of "''embiggen''" "''--embiggen ''"]
          j [of "''embiggen_tiles''" "''--embiggen_tiles ''"]
          with_variations_no_quote [OF clean]
        by simp
    qed
    then show ?thesis
      using s sw' by (simp add: count_join_head)
  qed
  then have "count_list s (CHR 0x22) = Suc (count_list (py_str fmt p) (CHR 0x22))
      \<and> (odd (count_list s (CHR 0x22)) \<longleftrightarrow> even (count_list (py_str fmt p) (CHR 0x22)))"
    if "\<forall>k v. k \<noteq> ''prompt'' \<longrightarrow> map_of a k = Some v \<longrightarrow> quote_free fmt v"
    using that by simp
  then show ?thesis
    using p shape td by auto
qed


theorem prompt_str_opening_quote_witness:
  "fst (prompt_str (\<lambda>v. ''7.5'') [] (snd (parse_cmd ''a cat -s 20'' fresh_args)))
      = Inr (CHR 0x22 # ''a cat -s 20 -W 512 -H 512 -C 7.5 -A k_lms -S None'')
   \<and> list_all (\<lambda>kv. quote_free (\<lambda>v. ''7.5'') (snd kv))
        (fst (to_dict [] (snd (parse_cmd ''a cat -s 20'' fresh_args))))
   \<and> count_list (CHR 0x22 # ''a cat -s 20 -W 512 -H 512 -C 7.5 -A k_lms -S None'') (CHR 0x22) = 1"
proof -
  let ?st = "snd (parse_cmd ''a cat -s 20'' fresh_args)"
  let ?s = "CHR 0x22 # ''a cat -s 20 -W 512 -H 512 -C 7.5 -A k_lms -S None''"
  have h: "fst (prompt_str (\<lambda>v. ''7.5'') [] ?st) = Inr ?s"
    by code_simp
  have clean: "list_all (\<lambda>kv. quote_free (\<lambda>v. ''7.5'') (snd kv)) (fst (to_dict [] ?st))"
    by code_simp
  have p: "dict_get (fst (to_dict [] ?st)) ''prompt'' = Inr (PStr ''a cat'')"
    by code_simp
  have "quote_free (\<lambda>v. ''7.5'') v" if "map_of (fst (to_dict [] ?st)) k = Some v" for k v
    using clean map_of_SomeD [OF that] by (auto simp: list_all_iff)
  then have "count_list ?s (CHR 0x22) = Suc (count_list ''a cat'' (CHR 0x22))"
    using prompt_str_opening_quote [OF h] p by auto
  then show ?thesis
    using h clean by simp
qed

text \<open>The claim as stated concludes that the number of double quotes is always odd. The
  text of the prompt may hold double quotes itself: the line \<^verbatim>\<open>a\"b\<close> gives the prompt
  \<^verbatim>\<open>a"b\<close>, and the string returned has two double quotes.\<close>

theorem prompt_str_even_quotes_counterexample:
  "shlex_split (''a'' @ [CHR 0x5C, CHR 0x22] @ ''b'') = Inr [''a'' @ [CHR 0x22] @ ''b'']
   \<and> fst (prompt_str (\<lambda>v. ''7.5'') [] (snd (parse_cmd (''a'' @ [CHR 0x5C, CHR 0x22] @ ''b'') fresh_args)))
       = Inr ([CHR 0x22] @ ''a'' @ [CHR 0x22] @ ''b -s 50 -W 512 -H 512 -C 7.5 -A k_lms -S None'')
   \<and> count_list ([CHR 0x22] @ ''a'' @ [CHR 0x22] @ ''b -s 50 -W 512 -H 512 -C 7.5 -A k_lms -S None'')
        (CHR 0x22) = 2"
  by code_simp

subsection \<open>The merged view\<close>

text \<open>Reading \<^verbatim>\<open>__dict__\<close> returns the overlay and stores it as the startup record;
  the startup record changes as soon as the command record has a field that the startup
  record lacks or holds with another value.\<close>

lemma getattribute_dict:
  "getattribute ''__dict__'' st =
     (Inr (Record (dict_update (arg_switches st) (cmd_switches st))),
      st\<lparr>arg_switches := dict_update (arg_switches st) (cmd_switches st)\<rparr>)"
  by (simp add: getattribute_def dict_view_def Let_def)

lemma dict_view_changes_startup:
  assumes "distinct (map fst (cmd_switches st))"
    and "map_of (cmd_switches st) k = Some v" and "map_of (arg_switches st) k \<noteq> Some v"
  shows "arg_switches (snd (dict_view st)) \<noteq> arg_switches st"
proof
  assume "arg_switches (snd (dict_view st)) = arg_switches st"
  then have "map_of (fst (dict_view st)) k = map_of (arg_switches st) k"
    by (simp add: dict_view_alias)
  moreover have "map_of (fst (dict_view st)) k = Some v"
    using assms(1,2) by (simp add: dict_view_overlay map_of_rev_distinct)
  ultimately show False using assms(3) by simp
qed

text \<open>
  Claim C8. The view is the startup record overlaid with the command record
  (\<open>dict_view_overlay\<close>), but it is built in the dictionary of the startup record
  (\<open>dict_view_alias\<close>): reading \<^verbatim>\<open>__dict__\<close> changes the startup record, and
  \<^verbatim>\<open>to_dict\<close> writes its overrides there too. After \<^verbatim>\<open>cat -g\<close> on a fresh object
  the startup record has \<^verbatim>\<open>grid\<close> false; one read of \<^verbatim>\<open>__dict__\<close> makes it true.
\<close>

theorem dict_view_overwrites_startup_record:
  "map_of (arg_switches (snd (parse_cmd ''cat -g'' fresh_args))) ''grid'' = Some (PBool False)
   \<and> map_of (arg_switches (snd (getattribute ''__dict__'' (snd (parse_cmd ''cat -g'' fresh_args)))))
        ''grid'' = Some (PBool True)
   \<and> map_of (arg_switches (snd (parse_cmd ''cat -g'' fresh_args))) ''seed'' = None
   \<and> map_of (arg_switches (snd (to_dict [(''seed'', PInt 42)] (snd (parse_cmd ''cat -g'' fresh_args)))))
        ''seed'' = Some (PInt 42)"
  by code_simp

subsection \<open>The examples of the specification\<close>

text \<open>The command line \<^verbatim>\<open>a fantastic alien landscape -W1024 -H960 -s100 -n12\<close> gives
  that prompt, width 1024, height 960, 100 steps and 12 iterations, and the defaults
  elsewhere; the pairs \<^verbatim>\<open>(42, 0.5)\<close> and \<^verbatim>\<open>(17, 0.25)\<close> are written as
  \<^verbatim>\<open>-V 42:0.5,17:0.25\<close>, where the text of a float is the library's.\<close>

lemma example_command:
  "fst (parse_cmd ''a fantastic alien landscape -W1024 -H960 -s100 -n12'' fresh_args) =
     Inr (Some (dict_set ''iterations'' (PInt 12) (dict_set ''steps'' (PInt 100)
       (dict_set ''height'' (PInt 960) (dict_set ''width'' (PInt 1024)
         (dict_set ''prompt'' (PStr ''a fantastic alien landscape'') cmd_defaults))))))"
  by code_simp

lemma example_variations:
  "append_with_variations fmt
     [(''with_variations'',
       PList [PList [PInt 42, PFloat (Fin (1 / 2))], PList [PInt 17, PFloat (Fin (1 / 4))]])]
   = Inr [''-V 42:'' @ fmt (PFloat (Fin (1 / 2))) @ '',17:'' @ fmt (PFloat (Fin (1 / 4)))]"
  by code_simp

end
